theory Spec2Isabelle
  imports Complex_Main "HOL-Library.Word"
begin

section \<open>JavaScript strings\<close>

text \<open>
  A JavaScript string is a sequence of 16-bit code units. Literals of the source are
  written \<open>js ''...''\<close>; all of them are ASCII.
\<close>

type_synonym jsstring = "16 word list"

definition js :: "string \<Rightarrow> jsstring" where
  "js s = map of_char s"

text \<open>
  The characters matched by \<open>\s\<close> in a regular expression and removed by
  \<open>String.prototype.trim\<close>: WhiteSpace and LineTerminator of ECMA-262.
\<close>

definition is_space :: "16 word \<Rightarrow> bool" where
  "is_space c \<longleftrightarrow>
     c = 0x09 \<or> c = 0x0A \<or> c = 0x0B \<or> c = 0x0C \<or> c = 0x0D \<or> c = 0x20 \<or> c = 0xA0 \<or>
     c = 0x1680 \<or> (0x2000 \<le> c \<and> c \<le> 0x200A) \<or> c = 0x2028 \<or> c = 0x2029 \<or>
     c = 0x202F \<or> c = 0x205F \<or> c = 0x3000 \<or> c = 0xFEFF"

text \<open>\<open>s.startsWith(p)\<close>\<close>

definition startsWith :: "jsstring \<Rightarrow> jsstring \<Rightarrow> bool" where
  "startsWith s p \<longleftrightarrow> take (length p) s = p"

text \<open>\<open>s.includes(p)\<close>: \<open>p\<close> occurs in \<open>s\<close> at some position.\<close>

fun str_includes :: "jsstring \<Rightarrow> jsstring \<Rightarrow> bool" where
  "str_includes [] p = (p = [])"
| "str_includes (c # s) p = (startsWith (c # s) p \<or> str_includes s p)"

text \<open>\<open>s.split(sep)\<close> for a separator of one code unit; the result is never empty.\<close>

fun split :: "jsstring \<Rightarrow> 16 word \<Rightarrow> jsstring list" where
  "split [] sep = [[]]"
| "split (c # s) sep =
     (if c = sep then [] # split s sep
      else (case split s sep of [] \<Rightarrow> [[c]] | p # ps \<Rightarrow> (c # p) # ps))"

text \<open>\<open>s.replace(p, "")\<close> with a string pattern: the first occurrence of \<open>p\<close> is removed.\<close>

fun remove_first :: "jsstring \<Rightarrow> jsstring \<Rightarrow> jsstring" where
  "remove_first [] p = []"
| "remove_first (c # s) p =
     (if startsWith (c # s) p then drop (length p) (c # s) else c # remove_first s p)"

text \<open>\<open>s.replace(/\/$/, "")\<close>: one trailing slash is removed.\<close>

definition strip_trailing_slash :: "jsstring \<Rightarrow> jsstring" where
  "strip_trailing_slash s = (if s \<noteq> [] \<and> last s = 0x2F then butlast s else s)"

text \<open>\<open>s.trim()\<close>\<close>

definition trim :: "jsstring \<Rightarrow> jsstring" where
  "trim s = rev (dropWhile is_space (rev (dropWhile is_space s)))"

section \<open>Token sanitizer\<close>

text \<open>
  \<open>token.replace(/^[Bb]earer\s+/, "")\<close>: at the start of the string, \<open>B\<close> or \<open>b\<close>,
  then \<open>earer\<close>, then one or more white-space characters (as many as there are).
\<close>

definition strip_bearer :: "jsstring \<Rightarrow> jsstring" where
  "strip_bearer t =
     (case t of
        [] \<Rightarrow> []
      | c # r \<Rightarrow>
          if (c = 0x42 \<or> c = 0x62) \<and> take 5 r = js ''earer''
             \<and> (case drop 5 r of [] \<Rightarrow> False | w # _ \<Rightarrow> is_space w)
          then dropWhile is_space (drop 5 r)
          else t)"

text \<open>\<open>s.replace(/\s+/g, "")\<close>\<close>

definition remove_spaces :: "jsstring \<Rightarrow> jsstring" where
  "remove_spaces s = filter (\<lambda>c. \<not> is_space c) s"

text \<open>
  \<open>sanitizeToken(token)\<close>. The token is a string, or absent (\<open>null\<close> or
  \<open>undefined\<close>); \<open>!token\<close> holds of an absent token and of the empty string.
\<close>

definition sanitizeToken :: "jsstring option \<Rightarrow> jsstring" where
  "sanitizeToken token =
     (case token of
        None \<Rightarrow> []
      | Some t \<Rightarrow> if t = [] then [] else remove_spaces (strip_bearer t))"

section \<open>JavaScript values\<close>

text \<open>
  The values that \<open>yaml.load\<close> and \<open>JSON.parse\<close> produce. A number is a double: a
  finite value (every double is a rational; \<open>-0\<close> is \<open>Finite 0\<close>), an infinity or NaN.
  An object is the list of its own properties in insertion order, each key once.
\<close>

datatype jsnum = Finite rat | PosInf | NegInf | NaN

datatype jsval =
    Undefined
  | Null
  | Bool bool
  | Num jsnum
  | Str jsstring
  | Arr "jsval list"
  | Obj "(jsstring \<times> jsval) list"

text \<open>ToBoolean: what \<open>!v\<close>, \<open>v || w\<close> and \<open>if (v)\<close> test.\<close>

fun truthy :: "jsval \<Rightarrow> bool" where
  "truthy Undefined = False"
| "truthy Null = False"
| "truthy (Bool b) = b"
| "truthy (Num n) = (n \<noteq> NaN \<and> n \<noteq> Finite 0)"
| "truthy (Str s) = (s \<noteq> [])"
| "truthy (Arr xs) = True"
| "truthy (Obj kvs) = True"

text \<open>
  \<open>v?.k\<close> for a property name \<open>k\<close> that is not an array index (\<open>results\<close>, \<open>id\<close> and
  the keys of a configuration): an own property of an object. No prototype object of
  the language has a property of one of these names, so arrays, strings, numbers and
  booleans give \<open>undefined\<close>, and so do \<open>null\<close> and \<open>undefined\<close> under \<open>?.\<close>.
\<close>

fun field :: "jsval \<Rightarrow> jsstring \<Rightarrow> jsval" where
  "field (Obj kvs) k = (case map_of kvs k of None \<Rightarrow> Undefined | Some v \<Rightarrow> v)"
| "field v k = Undefined"

text \<open>\<open>v?.[0]\<close>\<close>

fun first :: "jsval \<Rightarrow> jsval" where
  "first (Arr xs) = (case xs of [] \<Rightarrow> Undefined | x # _ \<Rightarrow> x)"
| "first (Str s) = (case s of [] \<Rightarrow> Undefined | c # _ \<Rightarrow> Str [c])"
| "first (Obj kvs) = field (Obj kvs) (js ''0'')"
| "first v = Undefined"

text \<open>
  \<open>k in v\<close> for such a property name: \<open>None\<close> is the TypeError that the operator throws
  when \<open>v\<close> is not an object.
\<close>

fun has_property :: "jsstring \<Rightarrow> jsval \<Rightarrow> bool option" where
  "has_property k (Obj kvs) = Some (k \<in> fst ` set kvs)"
| "has_property k (Arr xs) = Some False"
| "has_property k v = None"

text \<open>
  \<open>o.k = v\<close> on an object: an existing property keeps its place, a new one is added at
  the end.
\<close>

fun assign :: "jsval \<Rightarrow> jsstring \<Rightarrow> jsval \<Rightarrow> jsval" where
  "assign (Obj kvs) k v =
     Obj (if k \<in> fst ` set kvs then map (\<lambda>(k', v'). if k' = k then (k', v) else (k', v')) kvs
          else kvs @ [(k, v)])"
| "assign w k v = w"

text \<open>\<open>xs.join(sep)\<close>\<close>

fun join :: "jsstring list \<Rightarrow> jsstring \<Rightarrow> jsstring" where
  "join [] sep = []"
| "join [x] sep = x"
| "join (x # y # ys) sep = x @ sep @ join (y # ys) sep"

text \<open>
  \<open>path.basename(p)\<close> (POSIX): trailing slashes are ignored, and the part after the last
  remaining slash is returned.
\<close>

definition basename :: "jsstring \<Rightarrow> jsstring" where
  "basename p = rev (takeWhile (\<lambda>c. c \<noteq> 0x2F) (dropWhile (\<lambda>c. c = 0x2F) (rev p)))"

section \<open>The outside world\<close>

text \<open>
  A call that may throw returns the value or the message of the error thrown. A promise
  that may be rejected is modelled in the same way.
\<close>

datatype 'a result = Throws jsstring | Returns 'a

text \<open>
  The library functions that the program calls and whose code is not part of it: the
  YAML parser, the JSON parser, and the texts of the errors that the engine throws.
\<close>

record library =
  yaml_load :: "jsstring \<Rightarrow> jsval result"
  JSON_parse :: "jsstring \<Rightarrow> jsval result"
  in_TypeError :: "jsstring \<Rightarrow> jsval \<Rightarrow> jsstring"
  URIError :: jsstring
  URL_TypeError :: jsstring

text \<open>
  What one look at a file gives: \<open>fs.existsSync(path)\<close>, and \<open>fs.readFileSync(path)\<close>
  decoded as UTF-8, or the error it throws. The file system may change between two
  looks, so every place of the program that looks at a file has an observation of its own.
\<close>

record file_obs =
  present :: bool
  content :: "jsstring result"

text \<open>
  What \<open>makeRequest\<close> gets from the network: the status code and the body of the
  response, or the error with which the promise is rejected.
\<close>

type_synonym exchange = "(nat \<times> jsstring) result"

section \<open>Percent-encoding\<close>

text \<open>
  \<open>encodeURIComponent\<close> (ECMA-262, Encode): a code unit of the unreserved set
  \<open>A-Z a-z 0-9 - _ . ! ~ * ' ( )\<close> is kept; any other code point is written as the
  escapes \<open>%XX\<close> of the octets of its UTF-8 encoding, in upper-case hexadecimal; a
  surrogate code unit that is not part of a pair throws a URIError (\<open>None\<close>).
\<close>

definition unreserved :: "16 word \<Rightarrow> bool" where
  "unreserved c \<longleftrightarrow>
     (0x41 \<le> c \<and> c \<le> 0x5A) \<or> (0x61 \<le> c \<and> c \<le> 0x7A) \<or> (0x30 \<le> c \<and> c \<le> 0x39) \<or>
     c = 0x2D \<or> c = 0x5F \<or> c = 0x2E \<or> c = 0x21 \<or> c = 0x7E \<or> c = 0x2A \<or> c = 0x27 \<or>
     c = 0x28 \<or> c = 0x29"

definition is_lead :: "16 word \<Rightarrow> bool" where
  "is_lead c \<longleftrightarrow> 0xD800 \<le> c \<and> c \<le> 0xDBFF"

definition is_trail :: "16 word \<Rightarrow> bool" where
  "is_trail c \<longleftrightarrow> 0xDC00 \<le> c \<and> c \<le> 0xDFFF"

definition pair_code_point :: "16 word \<Rightarrow> 16 word \<Rightarrow> nat" where
  "pair_code_point c d = 0x10000 + (unat c - 0xD800) * 0x400 + (unat d - 0xDC00)"

definition utf8 :: "nat \<Rightarrow> nat list" where
  "utf8 cp =
     (if cp < 0x80 then [cp]
      else if cp < 0x800 then [0xC0 + cp div 0x40, 0x80 + cp mod 0x40]
      else if cp < 0x10000 then
        [0xE0 + cp div 0x1000, 0x80 + cp div 0x40 mod 0x40, 0x80 + cp mod 0x40]
      else
        [0xF0 + cp div 0x40000, 0x80 + cp div 0x1000 mod 0x40, 0x80 + cp div 0x40 mod 0x40,
         0x80 + cp mod 0x40])"

definition hex_digit :: "nat \<Rightarrow> 16 word" where
  "hex_digit n = (if n < 10 then of_nat (0x30 + n) else of_nat (0x37 + n))"

definition escape :: "nat \<Rightarrow> jsstring" where
  "escape b = [0x25, hex_digit (b div 16), hex_digit (b mod 16)]"

fun encodeURIComponent :: "jsstring \<Rightarrow> jsstring option" where
  "encodeURIComponent [] = Some []"
| "encodeURIComponent (c # s) =
     (if unreserved c then map_option (\<lambda>r. c # r) (encodeURIComponent s)
      else if is_trail c then None
      else if is_lead c then
        (case s of
           [] \<Rightarrow> None
         | d # s' \<Rightarrow>
             if is_trail d
             then map_option (\<lambda>r. concat (map escape (utf8 (pair_code_point c d))) @ r)
                    (encodeURIComponent s')
             else None)
      else map_option (\<lambda>r. concat (map escape (utf8 (unat c))) @ r) (encodeURIComponent s))"

text \<open>
  \<open>decodeURIComponent\<close> (ECMA-262, Decode with an empty set of preserved escapes), the
  function that reverses the encoding. \<open>None\<close> is the URIError of a malformed escape.
\<close>

definition hex_value :: "16 word \<Rightarrow> nat option" where
  "hex_value c =
     (if 0x30 \<le> c \<and> c \<le> 0x39 then Some (unat c - 0x30)
      else if 0x41 \<le> c \<and> c \<le> 0x46 then Some (unat c - 0x37)
      else if 0x61 \<le> c \<and> c \<le> 0x66 then Some (unat c - 0x57)
      else None)"

definition parse_hex_octet :: "jsstring \<Rightarrow> nat option" where
  "parse_hex_octet s =
     (case s of
        h # l # _ \<Rightarrow>
          (case hex_value h of
             None \<Rightarrow> None
           | Some a \<Rightarrow> (case hex_value l of None \<Rightarrow> None | Some b \<Rightarrow> Some (16 * a + b)))
      | _ \<Rightarrow> None)"

text \<open>The octets of \<open>n\<close> consecutive escapes \<open>%XX\<close> at the start of a string.\<close>

fun escapes :: "nat \<Rightarrow> jsstring \<Rightarrow> nat list option" where
  "escapes 0 s = Some []"
| "escapes (Suc n) s =
     (case s of
        [] \<Rightarrow> None
      | p # r \<Rightarrow>
          if p = 0x25 then
            (case parse_hex_octet r of
               None \<Rightarrow> None
             | Some b \<Rightarrow> map_option (\<lambda>bs. b # bs) (escapes n (drop 2 r)))
          else None)"

text \<open>The number of leading 1 bits of an octet.\<close>

definition leading_ones :: "nat \<Rightarrow> nat" where
  "leading_ones b =
     (if b < 0x80 then 0 else if b < 0xC0 then 1 else if b < 0xE0 then 2
      else if b < 0xF0 then 3 else if b < 0xF8 then 4 else 5)"

definition continuation :: "nat \<Rightarrow> bool" where
  "continuation b \<longleftrightarrow> 0x80 \<le> b \<and> b < 0xC0"

text \<open>
  The code point of a sequence of two to four octets, if the sequence is its UTF-8
  encoding: continuation octets, shortest form, no surrogate, at most \<open>0x10FFFF\<close>.
\<close>

definition utf8_code_point :: "nat list \<Rightarrow> nat option" where
  "utf8_code_point bs =
     (case bs of
        [a, b] \<Rightarrow>
          (let cp = (a - 0xC0) * 0x40 + (b - 0x80)
           in if continuation b \<and> 0x80 \<le> cp then Some cp else None)
      | [a, b, c] \<Rightarrow>
          (let cp = (a - 0xE0) * 0x1000 + (b - 0x80) * 0x40 + (c - 0x80)
           in if continuation b \<and> continuation c \<and> 0x800 \<le> cp
                 \<and> \<not> (0xD800 \<le> cp \<and> cp \<le> 0xDFFF)
              then Some cp else None)
      | [a, b, c, d] \<Rightarrow>
          (let cp = (a - 0xF0) * 0x40000 + (b - 0x80) * 0x1000 + (c - 0x80) * 0x40 + (d - 0x80)
           in if continuation b \<and> continuation c \<and> continuation d \<and> 0x10000 \<le> cp
                 \<and> cp \<le> 0x10FFFF
              then Some cp else None)
      | _ \<Rightarrow> None)"

definition utf16 :: "nat \<Rightarrow> jsstring" where
  "utf16 cp =
     (if cp < 0x10000 then [of_nat cp]
      else [of_nat (0xD800 + (cp - 0x10000) div 0x400), of_nat (0xDC00 + (cp - 0x10000) mod 0x400)])"

function decodeURIComponent :: "jsstring \<Rightarrow> jsstring option" where
  "decodeURIComponent [] = Some []"
| "decodeURIComponent (c # s) =
     (if c \<noteq> 0x25 then map_option (\<lambda>r. c # r) (decodeURIComponent s)
      else
        (case parse_hex_octet s of
           None \<Rightarrow> None
         | Some b \<Rightarrow>
             (let n = leading_ones b in
              if n = 0 then map_option (\<lambda>r. of_nat b # r) (decodeURIComponent (drop 2 s))
              else if n = 1 \<or> n > 4 then None
              else
                (case escapes (n - 1) (drop 2 s) of
                   None \<Rightarrow> None
                 | Some bs \<Rightarrow>
                     (case utf8_code_point (b # bs) of
                        None \<Rightarrow> None
                      | Some cp \<Rightarrow>
                          map_option (\<lambda>r. utf16 cp @ r)
                            (decodeURIComponent (drop (3 * (n - 1)) (drop 2 s))))))))"
  by pat_completeness auto
termination
  by (relation "measure length") auto

text \<open>A string without unpaired surrogates, as the UTF-8 decoder of \<open>Buffer\<close> produces.\<close>

fun well_formed :: "jsstring \<Rightarrow> bool" where
  "well_formed [] = True"
| "well_formed (c # s) =
     (if is_trail c then False
      else if is_lead c then (case s of [] \<Rightarrow> False | d # s' \<Rightarrow> is_trail d \<and> well_formed s')
      else well_formed s)"

text \<open>A Unicode scalar value: a code point that is not a surrogate.\<close>

definition scalar :: "nat \<Rightarrow> bool" where
  "scalar cp \<longleftrightarrow> cp < 0x110000 \<and> \<not> (0xD800 \<le> cp \<and> cp \<le> 0xDFFF)"

section \<open>Change detector\<close>

text \<open>
  Both functions read the list of files changed by the commit with one \<open>git log\<close>
  command. \<open>history\<close> is what the \<open>try\<close> block gets from it: the output of the
  command, or the error thrown.
\<close>

text \<open>\<open>getChangedFilesInFolder(folder)\<close>, with the message it logs when the query fails.\<close>

definition getChangedFilesInFolder :: "jsstring \<Rightarrow> jsstring result \<Rightarrow> jsstring option \<times> jsstring list" where
  "getChangedFilesInFolder folder history =
     (case history of
        Throws m \<Rightarrow> (Some m, [])
      | Returns changedFiles \<Rightarrow>
          (let normalizedFolder = strip_trailing_slash folder @ js ''/''
           in (None,
               map (\<lambda>file. remove_first file normalizedFolder)
                 (filter (\<lambda>file. trim file \<noteq> [] \<and> startsWith file normalizedFolder)
                    (split changedFiles 0x0A)))))"

text \<open>\<open>folders.add(x)\<close> on a \<open>Set\<close>, which keeps its elements in the order of insertion.\<close>

definition set_add :: "jsstring list \<Rightarrow> jsstring \<Rightarrow> jsstring list" where
  "set_add folders x = (if x \<in> set folders then folders else folders @ [x])"

text \<open>The body of the \<open>forEach\<close> of \<open>getChangedFolders\<close>.\<close>

definition add_folder :: "jsstring list \<Rightarrow> jsstring \<Rightarrow> jsstring list" where
  "add_folder folders file =
     (if startsWith file (js ''actions/'') then
        (let parts = split file 0x2F
         in if length parts \<ge> 2 then set_add folders (js ''actions/'' @ parts ! 1) else folders)
      else folders)"

definition getChangedFolders :: "jsstring result \<Rightarrow> jsstring option \<times> jsstring list" where
  "getChangedFolders history =
     (case history of
        Throws m \<Rightarrow> (Some m, [])
      | Returns changedFiles \<Rightarrow> (None, foldl add_folder [] (split changedFiles 0x0A)))"

section \<open>Config validator\<close>

definition requiredKeys :: "jsstring list" where
  "requiredKeys =
     [js ''description'', js ''memory'', js ''interpreter'', js ''time_limit'', js ''concurrency'']"

definition is_required :: "jsstring \<Rightarrow> jsstring" where
  "is_required key = js [CHR 0x27] @ key @ js [CHR 0x27] @ js '' is required''"

text \<open>
  The loop of \<open>validateConfig\<close> over the required keys: the list \<open>errors\<close>, or \<open>None\<close> when
  \<open>key in config\<close> throws.
\<close>

fun missing :: "jsstring list \<Rightarrow> jsval \<Rightarrow> jsstring list option" where
  "missing [] config = Some []"
| "missing (key # keys) config =
     (case has_property key config of
        None \<Rightarrow> None
      | Some b \<Rightarrow>
          (case missing keys config of
             None \<Rightarrow> None
           | Some errors \<Rightarrow> Some (if \<not> b then is_required key # errors else errors)))"

text \<open>
  \<open>validateConfig(config, folder)\<close>: \<open>Returns None\<close> is the result \<open>null\<close>,
  \<open>Returns (Some e)\<close> the result \<open>{error: e}\<close>.
\<close>

definition validateConfig :: "library \<Rightarrow> jsval \<Rightarrow> jsstring \<Rightarrow> jsstring option result" where
  "validateConfig lib config folder =
     (case missing requiredKeys config of
        None \<Rightarrow> Throws (in_TypeError lib (hd requiredKeys) config)
      | Some errors \<Rightarrow>
          if length errors > 0
          then Returns (Some (js ''Invalid config.yaml in '' @ folder @ js '':'' @ [0x0A]
                 @ js ''  - '' @ join errors ([0x0A] @ js ''  - '')))
          else Returns None)"

section \<open>Payload builder\<close>

record full_payload =
  name :: jsstring
  description :: jsval
  memory :: jsval
  time_limit :: jsval
  concurrency :: jsval
  config' :: jsval
  file' :: jsstring

text \<open>
  The objects that the two builders return: the full payload, the payload with the file
  only, or \<open>{error: message}\<close>.
\<close>

datatype payload = Full full_payload | FileOnly jsstring | Failure jsstring

text \<open>\<open>if (p.error)\<close>: an error with a message that is not empty.\<close>

fun has_error :: "payload \<Rightarrow> bool" where
  "has_error (Failure m) = (m \<noteq> [])"
| "has_error p = False"

text \<open>\<open>p.error\<close>, where \<open>has_error p\<close>.\<close>

fun error_of :: "payload \<Rightarrow> jsstring" where
  "error_of (Failure m) = m"
| "error_of p = []"

text \<open>\<open>p.name\<close>; \<open>None\<close> is \<open>undefined\<close>.\<close>

fun name_of :: "payload \<Rightarrow> jsstring option" where
  "name_of (Full p) = Some (name p)"
| "name_of p = None"

text \<open>What \<open>generatePayload\<close> sees of the two files of the folder.\<close>

record folder_obs =
  config_yaml :: file_obs
  main_py :: file_obs

definition generatePayload :: "library \<Rightarrow> jsstring \<Rightarrow> folder_obs \<Rightarrow> payload" where
  "generatePayload lib folder obs =
     (if \<not> present (config_yaml obs) then Failure (js ''No config.yaml found'')
      else
        (case content (config_yaml obs) of
           Throws m \<Rightarrow> Failure (js ''Invalid YAML: '' @ m)
         | Returns configContent \<Rightarrow>
        (case yaml_load lib configContent of
           Throws m \<Rightarrow> Failure (js ''Invalid YAML: '' @ m)
         | Returns config \<Rightarrow>
        (case validateConfig lib config folder of
           Throws m \<Rightarrow> Failure m
         | Returns (Some e) \<Rightarrow> Failure e
         | Returns None \<Rightarrow>
        (if \<not> present (main_py obs) then Failure (js ''No main.py file found'')
         else
        (case content (main_py obs) of
           Throws m \<Rightarrow> Failure m
         | Returns fileContent \<Rightarrow>
        (case encodeURIComponent fileContent of
           None \<Rightarrow> Failure (URIError lib)
         | Some encodedFile \<Rightarrow>
          (let taskName = basename folder;
               taskConfig = assign config (js ''interpreter'') (field config (js ''interpreter''));
               taskConfig = assign taskConfig (js ''requirements'')
                              (field taskConfig (js ''requirements''))
           in Full \<lparr>name = taskName,
                    description = field taskConfig (js ''description''),
                    memory = field taskConfig (js ''memory''),
                    time_limit = field taskConfig (js ''time_limit''),
                    concurrency = field taskConfig (js ''concurrency''),
                    config' = taskConfig,
                    file' = encodedFile\<rparr>))))))))"

definition generateFileOnlyPayload :: "library \<Rightarrow> file_obs \<Rightarrow> payload" where
  "generateFileOnlyPayload lib obs =
     (if \<not> present obs then Failure (js ''No main.py file found'')
      else
        (case content obs of
           Throws m \<Rightarrow> Failure m
         | Returns fileContent \<Rightarrow>
             (case encodeURIComponent fileContent of
                None \<Rightarrow> Failure (URIError lib)
              | Some encodedFile \<Rightarrow> FileOnly encodedFile)))"

section \<open>Remote client\<close>

text \<open>
  The requests of the program: the lookup by name, the creation and the update of the
  resource with an id, each with the token. The other headers are constants.
\<close>

datatype request =
    GET "jsstring option" jsstring
  | POST payload jsstring
  | PATCH jsval payload jsstring

record response =
  status :: nat
  data :: jsval

text \<open>
  \<open>makeRequest\<close>: the promise resolves with the status and the parsed body, or with the
  body as it is when it is not JSON; it is rejected when the request fails.
\<close>

definition makeRequest :: "library \<Rightarrow> exchange \<Rightarrow> response result" where
  "makeRequest lib x =
     (case x of
        Throws m \<Rightarrow> Throws m
      | Returns (code, body) \<Rightarrow>
          Returns \<lparr>status = code,
                   data = (case JSON_parse lib body of Returns parsed \<Rightarrow> parsed | Throws e \<Rightarrow> Str body)\<rparr>)"

text \<open>\<open>a || b\<close>\<close>

definition or_else :: "jsval \<Rightarrow> jsval \<Rightarrow> jsval" where
  "or_else a b = (if truthy a then a else b)"

text \<open>
  \<open>checkTaskExists\<close>, once the URL is built: the message logged, if any, and the id.
\<close>

definition checkTaskExists :: "library \<Rightarrow> exchange \<Rightarrow> jsstring option \<times> jsval" where
  "checkTaskExists lib x =
     (case makeRequest lib x of
        Throws m \<Rightarrow> (Some m, Null)
      | Returns response \<Rightarrow>
          (None,
           or_else
             (or_else (field (first (field (data response) (js ''results''))) (js ''id''))
                (field (data response) (js ''id'')))
             Null))"

section \<open>Sync orchestrator\<close>

text \<open>
  What the program writes and sends, in order. Each line of the console is named after
  the place that writes it and carries the values it shows.
\<close>

datatype event =
    SkipNoConfig jsstring
  | SkipNoMain jsstring
  | Processing jsstring
  | PayloadError jsstring jsstring
  | CheckingExistence
  | LookupError jsstring
  | Creating "jsstring option"
  | Created jsval
  | CreateFailed jsval
  | ExistingFound jsval
  | ChangedFilesError jsstring jsstring
  | FileOnlyFallback jsstring
  | Updating "jsstring option"
  | Updated
  | UpdateFailed jsval
  | SyncError "jsstring option" jsstring
  | Separator
  | DetectError jsstring
  | MissingToken
  | Fatal jsstring
  | Sent request

text \<open>The console method that writes the line.\<close>

datatype stream = console_log | console_warn | console_error

fun stream_of :: "event \<Rightarrow> stream option" where
  "stream_of (PayloadError f m) = Some console_error"
| "stream_of (LookupError m) = Some console_error"
| "stream_of (CreateFailed d) = Some console_error"
| "stream_of (ChangedFilesError f m) = Some console_error"
| "stream_of (UpdateFailed d) = Some console_error"
| "stream_of (SyncError n m) = Some console_error"
| "stream_of (DetectError m) = Some console_error"
| "stream_of MissingToken = Some console_error"
| "stream_of (Fatal m) = Some console_error"
| "stream_of (FileOnlyFallback m) = Some console_warn"
| "stream_of (Sent r) = None"
| "stream_of e = Some console_log"

fun requests :: "event list \<Rightarrow> request list" where
  "requests [] = []"
| "requests (Sent r # es) = r # requests es"
| "requests (e # es) = requests es"

text \<open>How a call of \<open>syncTask\<close> ends: it returns, it ends the process, or it throws.\<close>

datatype outcome = Returned | Exited nat | Thrown jsstring

text \<open>
  What \<open>syncTask\<close> meets for one folder, in the order of the calls: the two checks for
  the files, the files as \<open>generatePayload\<close> sees them, the answer to the lookup, the
  history, the script file as \<open>generateFileOnlyPayload\<close> sees it, and the answers to the
  creation and to the update.
\<close>

record sync_obs =
  config_found :: bool
  main_found :: bool
  build_obs :: folder_obs
  lookup_answer :: exchange
  history_obs :: "jsstring result"
  script_obs :: file_obs
  create_answer :: exchange
  update_answer :: exchange

text \<open>\<open>onlyPyFilesChanged\<close> of \<open>syncTask\<close>\<close>

definition onlyPyFilesChanged :: "jsstring list \<Rightarrow> bool" where
  "onlyPyFilesChanged changedFiles \<longleftrightarrow>
     length changedFiles > 0
     \<and> list_all (\<lambda>file. file = js ''main.py'') changedFiles
     \<and> \<not> list_ex (\<lambda>file. file = js ''config.yaml'') changedFiles"

text \<open>
  The choice of \<open>patchPayload\<close> in \<open>syncTask\<close>: the payload, after the warning of the fall
  back to the full payload, if any.
\<close>

definition patchPayload :: "library \<Rightarrow> payload \<Rightarrow> jsstring list \<Rightarrow> file_obs \<Rightarrow> event list \<times> payload" where
  "patchPayload lib fullPayload changedFiles obs =
     (if onlyPyFilesChanged changedFiles then
        (let p = generateFileOnlyPayload lib obs
         in if has_error p then ([FileOnlyFallback (error_of p)], fullPayload) else ([], p))
      else ([], fullPayload))"

text \<open>The body of the \<open>try\<close> of \<open>syncTask\<close> when no task was found: the creation.\<close>

definition create_task :: "library \<Rightarrow> payload \<Rightarrow> jsstring \<Rightarrow> exchange \<Rightarrow> event list" where
  "create_task lib fullPayload apiToken x =
     [Creating (name_of fullPayload), Sent (POST fullPayload apiToken)]
     @ (case makeRequest lib x of
          Throws m \<Rightarrow> [SyncError (name_of fullPayload) m]
        | Returns response \<Rightarrow>
            if status response \<ge> 200 \<and> status response < 300
            then [Created (field (data response) (js ''id''))]
            else [CreateFailed (data response)])
     @ [Separator]"

text \<open>The body of the \<open>try\<close> when a task was found: the update.\<close>

definition update_task :: "library \<Rightarrow> jsstring \<Rightarrow> payload \<Rightarrow> jsval \<Rightarrow> jsstring \<Rightarrow> sync_obs \<Rightarrow> event list" where
  "update_task lib cleanFolder fullPayload taskId apiToken obs =
     (let (failed, changedFiles) = getChangedFilesInFolder cleanFolder (history_obs obs);
          (warning, p) = patchPayload lib fullPayload changedFiles (script_obs obs)
      in [ExistingFound taskId]
         @ (case failed of None \<Rightarrow> [] | Some m \<Rightarrow> [ChangedFilesError cleanFolder m])
         @ warning
         @ [Updating (name_of fullPayload), Sent (PATCH taskId p apiToken)]
         @ (case makeRequest lib (update_answer obs) of
              Throws m \<Rightarrow> [SyncError (name_of fullPayload) m]
            | Returns response \<Rightarrow>
                if status response \<ge> 200 \<and> status response < 300
                then [Updated]
                else [UpdateFailed (data response)])
         @ [Separator])"

text \<open>
  \<open>syncTask(folder, apiToken)\<close>. \<open>url_ok\<close> says that the address of the API, taken from
  the environment, is a URL; if it is not, \<open>checkTaskExists\<close> throws before its \<open>try\<close>.
\<close>

definition syncTask :: "library \<Rightarrow> bool \<Rightarrow> jsstring \<Rightarrow> jsstring \<Rightarrow> sync_obs \<Rightarrow> event list \<times> outcome" where
  "syncTask lib url_ok folder apiToken obs =
     (let cleanFolder = strip_trailing_slash folder in
      if \<not> config_found obs then ([SkipNoConfig cleanFolder], Returned)
      else if \<not> main_found obs then ([SkipNoMain cleanFolder], Returned)
      else
        (let fullPayload = generatePayload lib cleanFolder (build_obs obs) in
         if has_error fullPayload then
           ([Processing cleanFolder, PayloadError cleanFolder (error_of fullPayload)],
            if str_includes (error_of fullPayload) (js ''Invalid config.yaml'')
            then Exited 1 else Returned)
         else if \<not> url_ok then
           ([Processing cleanFolder, CheckingExistence], Thrown (URL_TypeError lib))
         else
           (let (failed, taskId) = checkTaskExists lib (lookup_answer obs) in
            ([Processing cleanFolder, CheckingExistence,
              Sent (GET (name_of fullPayload) apiToken)]
             @ (case failed of None \<Rightarrow> [] | Some m \<Rightarrow> [LookupError m])
             @ (if \<not> truthy taskId
                then create_task lib fullPayload apiToken (create_answer obs)
                else update_task lib cleanFolder fullPayload taskId apiToken obs),
             Returned))))"

section \<open>The run\<close>

text \<open>
  The environment of a run: the token, whether the address of the API is a URL, the
  history that \<open>getChangedFolders\<close> reads, and what \<open>syncTask\<close> meets for each folder.
\<close>

record run_env =
  SA_TOKEN :: "jsstring option"
  SA_URL_ok :: bool
  commit_history :: "jsstring result"
  folder_world :: "jsstring \<Rightarrow> sync_obs"

text \<open>
  The loop of \<open>main\<close> over the changed folders. The result is what was written and sent,
  and the exit code of the process: \<open>process.exit\<close> in \<open>syncTask\<close> ends the run at once,
  and an error thrown by \<open>syncTask\<close> reaches the handler of \<open>main\<close>, which exits with 1.
\<close>

fun sync_all :: "library \<Rightarrow> run_env \<Rightarrow> jsstring \<Rightarrow> jsstring list \<Rightarrow> event list \<times> nat" where
  "sync_all lib env apiToken [] = ([], 0)"
| "sync_all lib env apiToken (folder # folders) =
     (case syncTask lib (SA_URL_ok env) folder apiToken (folder_world env folder) of
        (es, Returned) \<Rightarrow>
          (let (es', code) = sync_all lib env apiToken folders in (es @ es', code))
      | (es, Exited code) \<Rightarrow> (es, code)
      | (es, Thrown m) \<Rightarrow> (es @ [Fatal m], 1))"

definition main :: "library \<Rightarrow> run_env \<Rightarrow> event list \<times> nat" where
  "main lib env =
     (case SA_TOKEN env of
        None \<Rightarrow> ([MissingToken], 1)
      | Some t \<Rightarrow>
          if t = [] then ([MissingToken], 1)
          else
            (let apiToken = sanitizeToken (Some t);
                 (failed, changedFolders) = getChangedFolders (commit_history env);
                 (es, code) = sync_all lib env apiToken changedFolders
             in ((case failed of None \<Rightarrow> [] | Some m \<Rightarrow> [DetectError m]) @ es, code)))"

section \<open>Folder detection as the specification states it\<close>

text \<open>
  The definitions of this section follow the words of the specification, not the code:
  the second segment of a path, the elements of a list in the order of their first
  appearance, and the folders \<open>actions/<child>\<close> of the changed paths under \<open>actions/\<close>.
\<close>

definition second_segment :: "jsstring \<Rightarrow> jsstring" where
  "second_segment p = takeWhile (\<lambda>c. c \<noteq> 0x2F) (drop 1 (dropWhile (\<lambda>c. c \<noteq> 0x2F) p))"

definition first_occurrences :: "'a list \<Rightarrow> 'a list" where
  "first_occurrences xs = rev (remdups (rev xs))"

definition changed_action_folders :: "jsstring list \<Rightarrow> jsstring list" where
  "changed_action_folders paths =
     first_occurrences
       (map (\<lambda>p. js ''actions/'' @ second_segment p)
          (filter (\<lambda>p. startsWith p (js ''actions/'')) paths))"

section \<open>An example world\<close>

text \<open>
  A parser, a few files and a few answers of the network, on which the properties below
  are tried.
\<close>

definition example_config_text :: jsstring where
  "example_config_text =
     js ''description: demo'' @ [0x0A] @ js ''memory: 256'' @ [0x0A] @ js ''interpreter: 3.11''
     @ [0x0A] @ js ''time_limit: 300'' @ [0x0A] @ js ''concurrency: 32''"

definition example_config :: jsval where
  "example_config =
     Obj [(js ''description'', Str (js ''demo'')), (js ''memory'', Num (Finite 256)),
          (js ''interpreter'', Num (Finite (311 / 100))), (js ''time_limit'', Num (Finite 300)),
          (js ''concurrency'', Num (Finite 32))]"

definition found_body :: jsstring where
  "found_body = js (''{'' @ [CHR 0x22] @ ''results'' @ [CHR 0x22] @ '':[{'' @ [CHR 0x22] @ ''id''
                    @ [CHR 0x22] @ '':7}]}'')"

definition zero_body :: jsstring where
  "zero_body = js (''{'' @ [CHR 0x22] @ ''id'' @ [CHR 0x22] @ '':0}'')"

definition example_library :: library where
  "example_library =
     \<lparr>yaml_load = (\<lambda>text.
        if text = example_config_text then Returns example_config
        else if text = js ''description: demo'' then Returns (Obj [(js ''description'', Str (js ''demo''))])
        else if text = [] then Returns Undefined
        else Throws (js ''unexpected end of the stream within a flow collection'')),
      JSON_parse = (\<lambda>body.
        if body = found_body
        then Returns (Obj [(js ''results'', Arr [Obj [(js ''id'', Num (Finite 7))]])])
        else if body = zero_body then Returns (Obj [(js ''id'', Num (Finite 0))])
        else if body = js ''[]'' then Returns (Arr [])
        else Throws (js ''Unexpected token < in JSON at position 0'')),
      in_TypeError = (\<lambda>key v.
        js ''Cannot use '' @ js [CHR 0x27] @ js ''in'' @ js [CHR 0x27] @ js '' operator to search for ''
        @ js [CHR 0x27] @ key @ js [CHR 0x27] @ js '' in undefined''),
      URIError = js ''URI malformed'',
      URL_TypeError = js ''Invalid URL''\<rparr>"

definition example_script :: file_obs where
  "example_script = \<lparr>present = True, content = Returns (js ''print(1)'')\<rparr>"

definition example_files :: folder_obs where
  "example_files =
     \<lparr>config_yaml = \<lparr>present = True, content = Returns example_config_text\<rparr>,
      main_py = example_script\<rparr>"

definition example_payload :: "jsstring \<Rightarrow> full_payload" where
  "example_payload n =
     \<lparr>name = n, description = Str (js ''demo''), memory = Num (Finite 256),
      time_limit = Num (Finite 300), concurrency = Num (Finite 32),
      config' = Obj [(js ''description'', Str (js ''demo'')), (js ''memory'', Num (Finite 256)),
          (js ''interpreter'', Num (Finite (311 / 100))), (js ''time_limit'', Num (Finite 300)),
          (js ''concurrency'', Num (Finite 32)), (js ''requirements'', Undefined)],
      file' = js ''print(1)''\<rparr>"

definition example_obs :: sync_obs where
  "example_obs =
     \<lparr>config_found = True, main_found = True, build_obs = example_files,
      lookup_answer = Returns (200, found_body),
      history_obs = Returns (js ''actions/a/main.py''),
      script_obs = example_script,
      create_answer = Returns (201, js ''[]''),
      update_answer = Returns (200, js ''[]'')\<rparr>"

definition example_env :: "sync_obs \<Rightarrow> run_env" where
  "example_env obs =
     \<lparr>SA_TOKEN = Some (js ''Bearer tok''), SA_URL_ok = True,
      commit_history = Returns (js ''actions/b/main.py'' @ [0x0A] @ js ''actions/a/config.yaml''
                                @ [0x0A] @ js ''actions/c/main.py''),
      folder_world = (\<lambda>folder. if folder = js ''actions/a'' then obs else example_obs)\<rparr>"

definition missing_keys_obs :: sync_obs where
  "missing_keys_obs =
     example_obs\<lparr>build_obs :=
       \<lparr>config_yaml = \<lparr>present = True, content = Returns (js ''description: demo'')\<rparr>,
        main_py = example_script\<rparr>\<rparr>"

definition no_script_obs :: sync_obs where
  "no_script_obs =
     example_obs\<lparr>main_found := False,
       build_obs :=
         \<lparr>config_yaml = \<lparr>present = True, content = Returns (js ''description: demo'')\<rparr>,
          main_py = \<lparr>present = False, content = Throws (js ''ENOENT'')\<rparr>\<rparr>\<rparr>"

definition bad_yaml_obs :: sync_obs where
  "bad_yaml_obs =
     example_obs\<lparr>build_obs :=
       \<lparr>config_yaml = \<lparr>present = True, content = Returns (js ''a: ['')\<rparr>,
        main_py = example_script\<rparr>\<rparr>"

definition empty_config_obs :: sync_obs where
  "empty_config_obs =
     example_obs\<lparr>build_obs :=
       \<lparr>config_yaml = \<lparr>present = True, content = Returns []\<rparr>,
        main_py = example_script\<rparr>\<rparr>"

definition missing_keys_message :: jsstring where
  "missing_keys_message =
     js ''Invalid config.yaml in actions/a:'' @ [0x0A]
     @ js ''  - '' @ is_required (js ''memory'') @ [0x0A]
     @ js ''  - '' @ is_required (js ''interpreter'') @ [0x0A]
     @ js ''  - '' @ is_required (js ''time_limit'') @ [0x0A]
     @ js ''  - '' @ is_required (js ''concurrency'')"

text \<open>A script text with a blank, an accented letter, a line feed, both quotes, an emoji and the euro sign.\<close>

definition sample_text :: jsstring where
  "sample_text = [0x61, 0x20, 0xE9, 0x0A, 0x22, 0x27, 0xD83D, 0xDE00, 0x20AC]"

definition sample_encoded :: jsstring where
  "sample_encoded = js ''a%20%C3%A9%0A%22'' @ [0x27] @ js ''%F0%9F%98%80%E2%82%AC''"

section \<open>Properties of the token sanitizer\<close>

lemma remove_spaces_no_space: "\<forall>c \<in> set (remove_spaces s). \<not> is_space c"
  by (simp add: remove_spaces_def)

lemma remove_spaces_id: "\<forall>c \<in> set s. \<not> is_space c \<Longrightarrow> remove_spaces s = s"
  by (simp add: remove_spaces_def)

lemma remove_spaces_dropWhile: "remove_spaces (dropWhile is_space s) = remove_spaces s"
  by (induction s) (simp_all add: remove_spaces_def)

lemma remove_spaces_all_space: "\<forall>c \<in> set ws. is_space c \<Longrightarrow> remove_spaces (ws @ s) = remove_spaces s"
  by (induction ws) (simp_all add: remove_spaces_def)

lemma strip_bearer_no_space: "\<forall>c \<in> set t. \<not> is_space c \<Longrightarrow> strip_bearer t = t"
proof (cases t)
  case Nil
  then show ?thesis by (simp add: strip_bearer_def)
next
  case (Cons c r)
  assume ns: "\<forall>c \<in> set t. \<not> is_space c"
  show ?thesis
  proof (cases "drop 5 r")
    case Nil
    with Cons show ?thesis by (simp add: strip_bearer_def)
  next
    case (Cons w ws)
    then have "w \<in> set r" by (metis in_set_dropD list.set_intros(1))
    with ns \<open>t = c # r\<close> have "\<not> is_space w" by simp
    with Cons \<open>t = c # r\<close> show ?thesis by (simp add: strip_bearer_def)
  qed
qed

lemma sanitizeToken_no_space: "\<forall>c \<in> set (sanitizeToken token). \<not> is_space c"
  by (cases token) (simp_all add: sanitizeToken_def remove_spaces_def)

lemma strip_bearer_prefix:
  assumes "b = 0x42 \<or> b = 0x62" and "ws \<noteq> []" and "\<forall>c \<in> set ws. is_space c"
  shows "remove_spaces (strip_bearer (b # js ''earer'' @ ws @ rest)) = remove_spaces rest"
proof -
  obtain w ws' where ws: "ws = w # ws'" using assms(2) by (cases ws) auto
  have len: "length (js ''earer'') = 5" by (simp add: js_def)
  have sp: "is_space w" using assms(3) ws by simp
  have "strip_bearer (b # js ''earer'' @ ws @ rest) = dropWhile is_space (ws @ rest)"
    using assms(1) sp len by (simp add: strip_bearer_def ws)
  then show ?thesis
    using assms(3) by (simp add: remove_spaces_dropWhile remove_spaces_all_space)
qed

text \<open>
  C4 (as the code has it). A token that starts with \<open>Bearer\<close> or \<open>bearer\<close> followed by
  at least one white-space character is returned without that prefix and without any
  white space; an absent token gives the empty string; and sanitizing is idempotent.
\<close>

theorem sanitizeToken_bearer_prefix:
  "((b = 0x42 \<or> b = 0x62) \<and> ws \<noteq> [] \<and> (\<forall>c \<in> set ws. is_space c) \<longrightarrow>
      sanitizeToken (Some (b # js ''earer'' @ ws @ rest)) = filter (\<lambda>c. \<not> is_space c) rest)
   \<and> sanitizeToken None = []
   \<and> sanitizeToken (Some (sanitizeToken token)) = sanitizeToken token"
proof (intro conjI impI)
  assume "(b = 0x42 \<or> b = 0x62) \<and> ws \<noteq> [] \<and> (\<forall>c \<in> set ws. is_space c)"
  then have "remove_spaces (strip_bearer (b # js ''earer'' @ ws @ rest)) = remove_spaces rest"
    by (intro strip_bearer_prefix) simp_all
  then show "sanitizeToken (Some (b # js ''earer'' @ ws @ rest)) = filter (\<lambda>c. \<not> is_space c) rest"
    by (simp add: sanitizeToken_def remove_spaces_def)
next
  show "sanitizeToken None = []"
    by (simp add: sanitizeToken_def)
next
  have "remove_spaces (strip_bearer (sanitizeToken token)) = sanitizeToken token"
    using sanitizeToken_no_space [of token]
    by (simp add: strip_bearer_no_space remove_spaces_id)
  then show "sanitizeToken (Some (sanitizeToken token)) = sanitizeToken token"
    by (simp add: sanitizeToken_def)
qed

theorem sanitizeToken_bearer_prefix_witness:
  "sanitizeToken (Some (js ''bearer  ab c '')) = js ''abc''
   \<and> sanitizeToken (Some (js ''Bearer x y'')) = js ''xy''"
  using sanitizeToken_bearer_prefix [of "0x62" "js ''  ''" "js ''ab c ''"]
    sanitizeToken_bearer_prefix [of "0x42" "js '' ''" "js ''x y''"]
  by (simp add: js_def is_space_def)

text \<open>
  C4 (as stated) fails for a prefix in another letter case: only the first letter may be
  in either case, so \<open>BEARER abc\<close> keeps its prefix and only loses the blank.
\<close>

theorem sanitizeToken_upper_case_counterexample:
  "sanitizeToken (Some (js ''BEARER abc'')) = js ''BEARERabc''
   \<and> sanitizeToken (Some (js ''BEARER abc'')) \<noteq> js ''abc''"
  by (simp add: sanitizeToken_def strip_bearer_def remove_spaces_def js_def is_space_def)

section \<open>Properties of the change detector\<close>

lemma split_not_Nil: "split s sep \<noteq> []"
  by (induction s) (auto split: list.splits)

lemma split_hd: "hd (split s sep) = takeWhile (\<lambda>c. c \<noteq> sep) s"
  by (induction s) (auto split: list.splits simp: split_not_Nil)

lemma split_prefix:
  "sep \<notin> set a \<Longrightarrow> split (a @ sep # r) sep = a # split r sep"
  by (induction a) (auto split: list.splits simp: split_not_Nil)

lemma dropWhile_prefix: "sep \<notin> set a \<Longrightarrow> dropWhile (\<lambda>c. c \<noteq> sep) (a @ sep # r) = sep # r"
  by (induction a) auto

lemma actions_parts:
  assumes "startsWith file (js ''actions/'')"
  shows "length (split file 0x2F) \<ge> 2 \<and> split file 0x2F ! 1 = second_segment file"
proof -
  have eq: "js ''actions/'' = js ''actions'' @ 0x2F # []" by (simp add: js_def)
  have len: "length (js ''actions/'') = 8" by (simp add: js_def)
  from assms have "file = js ''actions/'' @ drop 8 file"
    unfolding startsWith_def len by (metis append_take_drop_id)
  then obtain r where fr: "file = js ''actions'' @ 0x2F # r" using eq by (metis append_Cons append_Nil append_assoc)
  have ns: "(0x2F::16 word) \<notin> set (js ''actions'')" by (simp add: js_def)
  have s: "split file 0x2F = js ''actions'' # split r 0x2F"
    using split_prefix [OF ns] fr by simp
  obtain p ps where ps: "split r 0x2F = p # ps" using split_not_Nil [of r "0x2F"] by (cases "split r 0x2F") auto
  have "p = takeWhile (\<lambda>c. c \<noteq> 0x2F) r" using split_hd [of r "0x2F"] ps by simp
  moreover have "second_segment file = takeWhile (\<lambda>c. c \<noteq> 0x2F) r"
    unfolding second_segment_def fr using dropWhile_prefix [OF ns] by simp
  ultimately show ?thesis using s ps by simp
qed

lemma add_folder_eq:
  "add_folder folders file =
     (if startsWith file (js ''actions/'') then set_add folders (js ''actions/'' @ second_segment file)
      else folders)"
  using actions_parts [of "file"] by (simp add: add_folder_def Let_def)

lemma foldl_add_folder:
  "foldl add_folder acc files =
     foldl set_add acc (map (\<lambda>p. js ''actions/'' @ second_segment p)
        (filter (\<lambda>p. startsWith p (js ''actions/'')) files))"
  by (induction files arbitrary: acc) (simp_all add: add_folder_eq)

lemma foldl_set_add: "distinct acc \<Longrightarrow> foldl set_add acc ys = first_occurrences (acc @ ys)"
proof (induction ys rule: rev_induct)
  case Nil
  then show ?case by (simp add: first_occurrences_def distinct_remdups_id)
next
  case (snoc y ys)
  then show ?case
     by (auto simp: first_occurrences_def set_add_def)
qed

lemma first_occurrences_distinct: "distinct (first_occurrences xs)"
  by (simp add: first_occurrences_def)

lemma first_occurrences_set: "set (first_occurrences xs) = set xs"
  by (simp add: first_occurrences_def)

text \<open>
  C5. For every listing of changed files, \<open>getChangedFolders\<close> returns the paths
  \<open>actions/<child>\<close>, where \<open><child>\<close> is the second segment of a changed path that starts
  with \<open>actions/\<close>, each once, in the order of first appearance.
\<close>

theorem getChangedFolders_spec:
  "getChangedFolders (Returns listing) = (None, changed_action_folders (split listing 0x0A))
   \<and> distinct (changed_action_folders (split listing 0x0A))
   \<and> set (changed_action_folders (split listing 0x0A)) =
       {js ''actions/'' @ second_segment p | p. p \<in> set (split listing 0x0A) \<and> startsWith p (js ''actions/'')}"
  using foldl_set_add [of "[]"]
  by (auto simp: getChangedFolders_def foldl_add_folder changed_action_folders_def first_occurrences_distinct first_occurrences_set)

text \<open>
  The commit of the specification, which touches \<open>actions/a/config.yaml\<close>,
  \<open>actions/b/main.py\<close> and \<open>other/file.txt\<close>, gives \<open>actions/a\<close> and \<open>actions/b\<close>.
\<close>

theorem getChangedFolders_spec_witness:
  "getChangedFolders
     (Returns (js ''actions/a/config.yaml'' @ [0x0A] @ js ''actions/b/main.py'' @ [0x0A] @ js ''other/file.txt''))
   = (None, [js ''actions/a'', js ''actions/b''])"
  using getChangedFolders_spec [of "js ''actions/a/config.yaml'' @ [0x0A] @ js ''actions/b/main.py'' @ [0x0A] @ js ''other/file.txt''"]
  by (simp add: changed_action_folders_def first_occurrences_def second_segment_def startsWith_def js_def)

section \<open>Properties of the sync orchestrator\<close>

lemma requests_append: "requests (a @ b) = requests a @ requests b"
  by (induction a rule: requests.induct) simp_all

lemma requests_create_task:
  "requests (create_task lib p tok x) = [POST p tok]"
  by (simp add: create_task_def requests_append split: result.splits)

lemma requests_update_task:
  "requests (update_task lib cf p taskId tok obs) =
     [PATCH taskId (snd (patchPayload lib p (snd (getChangedFilesInFolder cf (history_obs obs))) (script_obs obs))) tok]"
  by (simp add: update_task_def requests_append patchPayload_def Let_def
      split: result.splits prod.splits option.splits)

lemma syncTask_lookup:
  assumes "config_found obs" and "main_found obs"
    and "generatePayload lib (strip_trailing_slash folder) (build_obs obs) = Full fp"
    and "url_ok"
  shows "syncTask lib url_ok folder tok obs =
     ([Processing (strip_trailing_slash folder), CheckingExistence, Sent (GET (Some (name fp)) tok)]
      @ (case fst (checkTaskExists lib (lookup_answer obs)) of None \<Rightarrow> [] | Some m \<Rightarrow> [LookupError m])
      @ (if \<not> truthy (snd (checkTaskExists lib (lookup_answer obs)))
         then create_task lib (Full fp) tok (create_answer obs)
         else update_task lib (strip_trailing_slash folder) (Full fp)
                (snd (checkTaskExists lib (lookup_answer obs))) tok obs),
      Returned)"
  using assms by (simp add: syncTask_def Let_def split: prod.splits)

lemma onlyPyFilesChanged_iff:
  "onlyPyFilesChanged fs \<longleftrightarrow>
     fs \<noteq> [] \<and> (\<forall>f \<in> set fs. f = js ''main.py'') \<and> js ''config.yaml'' \<notin> set fs"
  by (auto simp: onlyPyFilesChanged_def list_all_iff list_ex_iff)

text \<open>
  C1 (as the code has it). When the resource exists, the PATCH carries the payload with the
  file only exactly when the list of changed files is not empty, every changed file is
  \<open>main.py\<close> and \<open>config.yaml\<close> is not among them (and that payload can be built);
  otherwise it carries the full payload.
\<close>

theorem syncTask_patch_choice:
  assumes "config_found obs" and "main_found obs"
    and "generatePayload lib (strip_trailing_slash folder) (build_obs obs) = Full fp"
    and "url_ok"
    and "checkTaskExists lib (lookup_answer obs) = (logged, taskId)" and "truthy taskId"
    and "getChangedFilesInFolder (strip_trailing_slash folder) (history_obs obs) = (failed, changedFiles)"
  shows "requests (fst (syncTask lib url_ok folder tok obs)) =
           [GET (Some (name fp)) tok,
            PATCH taskId
              (if changedFiles \<noteq> [] \<and> (\<forall>f \<in> set changedFiles. f = js ''main.py'')
                  \<and> js ''config.yaml'' \<notin> set changedFiles
               then (if has_error (generateFileOnlyPayload lib (script_obs obs)) then Full fp
                     else generateFileOnlyPayload lib (script_obs obs))
               else Full fp)
              tok]"
  using assms
  by (simp add: syncTask_lookup requests_append requests_update_task patchPayload_def
      onlyPyFilesChanged_iff Let_def split: option.splits)

lemma startsWith_includes: "startsWith s p \<Longrightarrow> str_includes s p"
  by (cases s) (simp_all add: startsWith_def)

lemma missing_Obj:
  "missing keys (Obj kvs) = Some (map is_required (filter (\<lambda>key. key \<notin> fst ` set kvs) keys))"
  by (induction keys) simp_all

lemma sync_all_append:
  "\<forall>f \<in> set before. snd (syncTask lib (SA_URL_ok env) f tok (folder_world env f)) = Returned \<Longrightarrow>
   sync_all lib env tok (before @ rest) =
     (concat (map (\<lambda>f. fst (syncTask lib (SA_URL_ok env) f tok (folder_world env f))) before)
        @ fst (sync_all lib env tok rest),
      snd (sync_all lib env tok rest))"
  by (induction before) (auto split: prod.splits outcome.splits)

lemma generatePayload_missing:
  assumes "present (config_yaml fobs)"
    and "content (config_yaml fobs) = Returns configContent"
    and "yaml_load lib configContent = Returns (Obj kvs)"
    and "\<exists>key \<in> set requiredKeys. key \<notin> fst ` set kvs"
  shows "generatePayload lib cf fobs =
      Failure (js ''Invalid config.yaml in '' @ cf @ js '':'' @ [0x0A] @ js ''  - ''
        @ join (map is_required (filter (\<lambda>key. key \<notin> fst ` set kvs) requiredKeys)) ([0x0A] @ js ''  - ''))"
proof -
  have "filter (\<lambda>key. key \<notin> fst ` set kvs) requiredKeys \<noteq> []"
    using assms(4) by (simp add: filter_empty_conv)
  then show ?thesis
    using assms(1-3) by (simp add: generatePayload_def validateConfig_def missing_Obj)
qed

text \<open>
  C2 (as the code has it). For a folder with both files whose \<open>config.yaml\<close> parses to a
  mapping without one or more of the five required keys, \<open>generatePayload\<close> fails with one
  error that lists every missing key, \<open>syncTask\<close> ends the process with the exit code 1,
  and the folders after it are not processed.
\<close>

theorem missing_keys_stop_run:
  assumes "config_found obs" and "main_found obs"
    and "present (config_yaml (build_obs obs))"
    and "content (config_yaml (build_obs obs)) = Returns configContent"
    and "yaml_load lib configContent = Returns (Obj kvs)"
    and "\<exists>key \<in> set requiredKeys. key \<notin> fst ` set kvs"
    and "folder_world env folder = obs"
    and "SA_TOKEN env = Some t" and "t \<noteq> []"
    and "getChangedFolders (commit_history env) = (failed, before @ folder # after)"
    and "\<forall>f \<in> set before.
           snd (syncTask lib (SA_URL_ok env) f (sanitizeToken (Some t)) (folder_world env f)) = Returned"
  shows "let cf = strip_trailing_slash folder;
             e = js ''Invalid config.yaml in '' @ cf @ js '':'' @ [0x0A] @ js ''  - ''
                 @ join (map is_required (filter (\<lambda>key. key \<notin> fst ` set kvs) requiredKeys))
                     ([0x0A] @ js ''  - '')
         in generatePayload lib cf (build_obs obs) = Failure e
            \<and> syncTask lib (SA_URL_ok env) folder (sanitizeToken (Some t)) obs
                = ([Processing cf, PayloadError cf e], Exited 1)
            \<and> main lib env =
                ((case failed of None \<Rightarrow> [] | Some m \<Rightarrow> [DetectError m])
                 @ concat (map (\<lambda>f. fst (syncTask lib (SA_URL_ok env) f (sanitizeToken (Some t))
                                            (folder_world env f))) before)
                 @ [Processing cf, PayloadError cf e], 1)"
proof -
  define cf where "cf = strip_trailing_slash folder"
  define e where "e = js ''Invalid config.yaml in '' @ cf @ js '':'' @ [0x0A] @ js ''  - ''
                 @ join (map is_required (filter (\<lambda>key. key \<notin> fst ` set kvs) requiredKeys))
                     ([0x0A] @ js ''  - '')"
  have g: "generatePayload lib cf (build_obs obs) = Failure e"
    unfolding e_def by (rule generatePayload_missing [OF assms(3-6)])
  have ne: "e \<noteq> []" by (simp add: e_def js_def)
  have inc: "str_includes e (js ''Invalid config.yaml'')"
    by (rule startsWith_includes) (simp add: e_def startsWith_def js_def)
  have s: "syncTask lib (SA_URL_ok env) folder (sanitizeToken (Some t)) obs
            = ([Processing cf, PayloadError cf e], Exited 1)"
    using assms(1,2) g ne inc by (simp add: syncTask_def cf_def [symmetric])
  have a: "sync_all lib env (sanitizeToken (Some t)) (folder # after) = ([Processing cf, PayloadError cf e], 1)"
    using s assms(7) by simp
  have m: "main lib env =
                ((case failed of None \<Rightarrow> [] | Some m \<Rightarrow> [DetectError m])
                 @ concat (map (\<lambda>f. fst (syncTask lib (SA_URL_ok env) f (sanitizeToken (Some t))
                                            (folder_world env f))) before)
                 @ [Processing cf, PayloadError cf e], 1)"
    using assms(8-10) sync_all_append [OF assms(11), of "folder # after"] a
    by (simp add: main_def)
  show ?thesis
    using g s m unfolding Let_def cf_def [symmetric] e_def [symmetric] by simp
qed

lemmas example_defs = example_config_text_def example_config_def found_body_def zero_body_def
  example_library_def example_script_def example_files_def example_payload_def example_obs_def

lemma example_encoded: "encodeURIComponent (js ''print(1)'') = Some (js ''print(1)'')"
  by (simp add: js_def unreserved_def)

lemma example_full:
  "generatePayload example_library (js ''actions/a'') example_files = Full (example_payload (js ''a''))"
  using example_encoded
  by (simp add: generatePayload_def validateConfig_def requiredKeys_def example_defs basename_def js_def)

lemma example_file_only:
  "generateFileOnlyPayload example_library example_script = FileOnly (js ''print(1)'')"
  using example_encoded by (simp add: generateFileOnlyPayload_def example_defs)

lemma example_found:
  "checkTaskExists example_library (Returns (code, found_body)) = (None, Num (Finite 7))"
  by (simp add: checkTaskExists_def makeRequest_def or_else_def example_library_def js_def)

lemma example_changed:
  "getChangedFilesInFolder (js ''actions/a'') (Returns (js ''actions/a/main.py'')) = (None, [js ''main.py''])"
  by (simp add: getChangedFilesInFolder_def strip_trailing_slash_def startsWith_def trim_def
      is_space_def js_def)

lemma example_unchanged:
  "getChangedFilesInFolder (js ''actions/a'') (Returns (js ''actions/b/main.py'')) = (None, [])"
  by (simp add: getChangedFilesInFolder_def strip_trailing_slash_def startsWith_def trim_def
      is_space_def js_def)

lemma example_clean: "strip_trailing_slash (js ''actions/a'') = js ''actions/a''"
  by (simp add: strip_trailing_slash_def js_def)

text \<open>Only \<open>main.py\<close> changed: the PATCH carries the file only.\<close>

theorem syncTask_patch_choice_witness:
  "requests (fst (syncTask example_library True (js ''actions/a'') (js ''tok'') example_obs)) =
     [GET (Some (js ''a'')) (js ''tok''),
      PATCH (Num (Finite 7)) (FileOnly (js ''print(1)'')) (js ''tok'')]"
  using syncTask_patch_choice [of example_obs example_library "js ''actions/a''"
      "example_payload (js ''a'')" True None "Num (Finite 7)" None "[js ''main.py'']" "js ''tok''"]
    example_full example_found [of 200] example_changed example_file_only
  by (simp add: example_clean) (simp add: example_obs_def example_payload_def js_def)

text \<open>
  C1 (as stated) fails on an empty list of changed files: every changed file is
  \<open>main.py\<close> and \<open>config.yaml\<close> is not among them, the payload with the file only can be
  built, and yet the PATCH carries the full payload.
\<close>

theorem syncTask_empty_change_set_counterexample:
  "getChangedFilesInFolder (js ''actions/a'') (Returns (js ''actions/b/main.py'')) = (None, [])
   \<and> generateFileOnlyPayload example_library example_script = FileOnly (js ''print(1)'')
   \<and> requests (fst (syncTask example_library True (js ''actions/a'') (js ''tok'')
         (example_obs\<lparr>history_obs := Returns (js ''actions/b/main.py'')\<rparr>))) =
      [GET (Some (js ''a'')) (js ''tok''),
       PATCH (Num (Finite 7)) (Full (example_payload (js ''a''))) (js ''tok'')]"
proof -
  have "requests (fst (syncTask example_library True (js ''actions/a'') (js ''tok'')
         (example_obs\<lparr>history_obs := Returns (js ''actions/b/main.py'')\<rparr>))) =
      [GET (Some (js ''a'')) (js ''tok''),
       PATCH (Num (Finite 7)) (Full (example_payload (js ''a''))) (js ''tok'')]"
    using example_full example_found [of 200] example_unchanged
    by (simp add: syncTask_lookup [where fp = "example_payload (js ''a'')"] example_clean
        example_obs_def requests_append requests_update_task patchPayload_def
        onlyPyFilesChanged_def)
      (simp add: example_payload_def)
  then show ?thesis using example_unchanged example_file_only by simp
qed

text \<open>
  C10. When the resource exists and the change detector returns no changed file for the
  folder, as it does when the history query fails, the PATCH carries the full payload.
\<close>

theorem empty_change_set_full_payload:
  assumes "config_found obs" and "main_found obs"
    and "generatePayload lib (strip_trailing_slash folder) (build_obs obs) = Full fp"
    and "url_ok"
    and "checkTaskExists lib (lookup_answer obs) = (logged, taskId)" and "truthy taskId"
    and "snd (getChangedFilesInFolder (strip_trailing_slash folder) (history_obs obs)) = []"
  shows "requests (fst (syncTask lib url_ok folder tok obs)) =
           [GET (Some (name fp)) tok, PATCH taskId (Full fp) tok]
         \<and> getChangedFilesInFolder (strip_trailing_slash folder) (Throws m) = (Some m, [])
         \<and> \<not> onlyPyFilesChanged []"
proof (intro conjI)
  show "requests (fst (syncTask lib url_ok folder tok obs)) =
           [GET (Some (name fp)) tok, PATCH taskId (Full fp) tok]"
    using assms
    by (simp add: syncTask_lookup requests_append requests_update_task patchPayload_def
        onlyPyFilesChanged_def split: option.splits)
  show "getChangedFilesInFolder (strip_trailing_slash folder) (Throws m) = (Some m, [])"
    by (simp add: getChangedFilesInFolder_def)
  show "\<not> onlyPyFilesChanged []"
    by (simp add: onlyPyFilesChanged_def)
qed

text \<open>The history query fails: the PATCH carries the full payload.\<close>

theorem empty_change_set_full_payload_witness:
  "requests (fst (syncTask example_library True (js ''actions/a'') (js ''tok'')
         (example_obs\<lparr>history_obs := Throws (js ''fatal: not a git repository'')\<rparr>))) =
      [GET (Some (js ''a'')) (js ''tok''),
       PATCH (Num (Finite 7)) (Full (example_payload (js ''a''))) (js ''tok'')]"
  using empty_change_set_full_payload [of "example_obs\<lparr>history_obs := Throws (js ''fatal: not a git repository'')\<rparr>"
      example_library "js ''actions/a''" "example_payload (js ''a'')" True None "Num (Finite 7)" "js ''tok''"]
    example_full example_found [of 200]
  by (simp add: example_clean example_obs_def getChangedFilesInFolder_def)
     (simp add: example_payload_def)

text \<open>
  C7. When only \<open>main.py\<close> changed and the payload with the file only cannot be built,
  \<open>syncTask\<close> writes a warning and sends the full payload in the PATCH; the folder is
  processed to the end as with the full payload.
\<close>

theorem file_only_failure_falls_back:
  assumes "config_found obs" and "main_found obs"
    and "generatePayload lib (strip_trailing_slash folder) (build_obs obs) = Full fp"
    and "url_ok"
    and "checkTaskExists lib (lookup_answer obs) = (logged, taskId)" and "truthy taskId"
    and "getChangedFilesInFolder (strip_trailing_slash folder) (history_obs obs) = (failed, changedFiles)"
    and "onlyPyFilesChanged changedFiles"
    and "generateFileOnlyPayload lib (script_obs obs) = Failure m" and "m \<noteq> []"
  shows "syncTask lib url_ok folder tok obs =
           ([Processing (strip_trailing_slash folder), CheckingExistence,
             Sent (GET (Some (name fp)) tok)]
            @ (case logged of None \<Rightarrow> [] | Some e \<Rightarrow> [LookupError e])
            @ [ExistingFound taskId]
            @ (case failed of None \<Rightarrow> [] | Some e \<Rightarrow> [ChangedFilesError (strip_trailing_slash folder) e])
            @ [FileOnlyFallback m, Updating (Some (name fp)), Sent (PATCH taskId (Full fp) tok)]
            @ (case makeRequest lib (update_answer obs) of
                 Throws e \<Rightarrow> [SyncError (Some (name fp)) e]
               | Returns response \<Rightarrow>
                   if status response \<ge> 200 \<and> status response < 300 then [Updated]
                   else [UpdateFailed (data response)])
            @ [Separator],
            Returned)
         \<and> stream_of (FileOnlyFallback m) = Some console_warn"
  using assms
  by (simp add: syncTask_lookup update_task_def patchPayload_def split: result.splits)

text \<open>The script file has disappeared when the payload with the file only is built.\<close>

theorem file_only_failure_falls_back_witness:
  "syncTask example_library True (js ''actions/a'') (js ''tok'')
      (example_obs\<lparr>script_obs := \<lparr>present = False, content = Throws (js ''ENOENT'')\<rparr>\<rparr>) =
     ([Processing (js ''actions/a''), CheckingExistence, Sent (GET (Some (js ''a'')) (js ''tok'')),
       ExistingFound (Num (Finite 7)), FileOnlyFallback (js ''No main.py file found''),
       Updating (Some (js ''a'')),
       Sent (PATCH (Num (Finite 7)) (Full (example_payload (js ''a''))) (js ''tok'')),
       Updated, Separator],
      Returned)"
  using file_only_failure_falls_back [of "example_obs\<lparr>script_obs := \<lparr>present = False, content = Throws (js ''ENOENT'')\<rparr>\<rparr>"
      example_library "js ''actions/a''" "example_payload (js ''a'')" True None "Num (Finite 7)"
      None "[js ''main.py'']" "js ''No main.py file found''" "js ''tok''"]
    example_full example_found [of 200] example_changed
  by (simp add: example_clean example_obs_def onlyPyFilesChanged_def generateFileOnlyPayload_def)
     (simp add: example_payload_def makeRequest_def example_library_def js_def)

lemma checkTaskExists_Returns:
  "checkTaskExists lib (Returns (code, body)) =
     (None,
      (let d = (case JSON_parse lib body of Returns parsed \<Rightarrow> parsed | Throws e \<Rightarrow> Str body)
       in if truthy (field (first (field d (js ''results''))) (js ''id''))
          then field (first (field d (js ''results''))) (js ''id'')
          else if truthy (field d (js ''id'')) then field d (js ''id'') else Null))"
  by (simp add: checkTaskExists_def makeRequest_def or_else_def Let_def)

text \<open>
  C6 (as the code has it). The lookup returns the id of the first element of \<open>results\<close>
  if there is one, else the id at the top level, else "not found" (\<open>null\<close>). A request
  that fails is logged and reported as not found; a body that is not JSON is reported as
  not found and nothing is logged. In both cases \<open>syncTask\<close> goes on to create the task.
\<close>

theorem lookup_failure_is_not_found:
  "(JSON_parse lib body = Returns d \<longrightarrow>
      checkTaskExists lib (Returns (code, body)) =
        (None,
         if truthy (field (first (field d (js ''results''))) (js ''id''))
         then field (first (field d (js ''results''))) (js ''id'')
         else if truthy (field d (js ''id'')) then field d (js ''id'') else Null))
   \<and> checkTaskExists lib (Throws m) = (Some m, Null)
   \<and> (JSON_parse lib body = Throws e \<longrightarrow> checkTaskExists lib (Returns (code, body)) = (None, Null))
   \<and> (config_found obs \<and> main_found obs
        \<and> generatePayload lib (strip_trailing_slash folder) (build_obs obs) = Full fp \<and> url_ok
        \<and> (lookup_answer obs = Throws m
             \<or> lookup_answer obs = Returns (code, body) \<and> JSON_parse lib body = Throws e) \<longrightarrow>
       syncTask lib url_ok folder tok obs =
         ([Processing (strip_trailing_slash folder), CheckingExistence,
           Sent (GET (Some (name fp)) tok)]
          @ (if lookup_answer obs = Throws m then [LookupError m] else [])
          @ create_task lib (Full fp) tok (create_answer obs), Returned)
       \<and> requests (fst (syncTask lib url_ok folder tok obs)) =
           [GET (Some (name fp)) tok, POST (Full fp) tok])"
proof (intro conjI impI)
  assume "JSON_parse lib body = Returns d"
  then show "checkTaskExists lib (Returns (code, body)) =
        (None,
         if truthy (field (first (field d (js ''results''))) (js ''id''))
         then field (first (field d (js ''results''))) (js ''id'')
         else if truthy (field d (js ''id'')) then field d (js ''id'') else Null)"
    by (simp add: checkTaskExists_Returns)
next
  show "checkTaskExists lib (Throws m) = (Some m, Null)"
    by (simp add: checkTaskExists_def makeRequest_def)
next
  assume "JSON_parse lib body = Throws e"
  then show "checkTaskExists lib (Returns (code, body)) = (None, Null)"
    by (simp add: checkTaskExists_Returns)
next
  assume a: "config_found obs \<and> main_found obs
        \<and> generatePayload lib (strip_trailing_slash folder) (build_obs obs) = Full fp \<and> url_ok
        \<and> (lookup_answer obs = Throws m
             \<or> lookup_answer obs = Returns (code, body) \<and> JSON_parse lib body = Throws e)"
  then have c: "checkTaskExists lib (lookup_answer obs) =
      (if lookup_answer obs = Throws m then Some m else None, Null)"
    by (auto simp: checkTaskExists_Returns) (simp add: checkTaskExists_def makeRequest_def)
  show s: "syncTask lib url_ok folder tok obs =
         ([Processing (strip_trailing_slash folder), CheckingExistence,
           Sent (GET (Some (name fp)) tok)]
          @ (if lookup_answer obs = Throws m then [LookupError m] else [])
          @ create_task lib (Full fp) tok (create_answer obs), Returned)"
    using a c by (simp add: syncTask_lookup [where fp = fp])
  show "requests (fst (syncTask lib url_ok folder tok obs)) =
           [GET (Some (name fp)) tok, POST (Full fp) tok]"
    unfolding s by (simp add: requests_append requests_create_task)
qed

text \<open>A connection that is reset, an answer with an id, and an answer that is not JSON.\<close>

theorem lookup_failure_is_not_found_witness:
  "syncTask example_library True (js ''actions/a'') (js ''tok'')
      (example_obs\<lparr>lookup_answer := Throws (js ''ECONNRESET'')\<rparr>) =
     ([Processing (js ''actions/a''), CheckingExistence, Sent (GET (Some (js ''a'')) (js ''tok'')),
       LookupError (js ''ECONNRESET''), Creating (Some (js ''a'')),
       Sent (POST (Full (example_payload (js ''a''))) (js ''tok'')),
       Created Undefined, Separator],
      Returned)
   \<and> checkTaskExists example_library (Returns (200, found_body)) = (None, Num (Finite 7))
   \<and> checkTaskExists example_library (Returns (502, js ''<html>'')) = (None, Null)"
  using lookup_failure_is_not_found [of example_library found_body
      "Obj [(js ''results'', Arr [Obj [(js ''id'', Num (Finite 7))]])]" 200 "js ''ECONNRESET''"
      "js ''Unexpected token < in JSON at position 0''"
      "example_obs\<lparr>lookup_answer := Throws (js ''ECONNRESET'')\<rparr>" "js ''actions/a''"
      "example_payload (js ''a'')" True "js ''tok''"]
    lookup_failure_is_not_found [of example_library "js ''<html>''" Null 502 "[]"
      "js ''Unexpected token < in JSON at position 0''"]
    example_full
  by (simp add: example_clean example_obs_def create_task_def makeRequest_def)
     (simp add: example_library_def found_body_def zero_body_def js_def example_payload_def)

text \<open>
  C6 (as stated) fails for a body that is not JSON: the lookup reports "not found", and
  no line of the console mentions the failure.
\<close>

theorem parse_failure_not_logged_counterexample:
  "JSON_parse example_library (js ''<html>'') = Throws (js ''Unexpected token < in JSON at position 0'')
   \<and> checkTaskExists example_library (Returns (502, js ''<html>'')) = (None, Null)
   \<and> syncTask example_library True (js ''actions/a'') (js ''tok'')
        (example_obs\<lparr>lookup_answer := Returns (502, js ''<html>'')\<rparr>) =
      ([Processing (js ''actions/a''), CheckingExistence, Sent (GET (Some (js ''a'')) (js ''tok'')),
        Creating (Some (js ''a'')),
        Sent (POST (Full (example_payload (js ''a''))) (js ''tok'')),
        Created Undefined, Separator],
       Returned)"
proof -
  have p: "JSON_parse example_library (js ''<html>'') = Throws (js ''Unexpected token < in JSON at position 0'')"
    by (simp add: example_library_def found_body_def zero_body_def js_def)
  have c: "checkTaskExists example_library (Returns (502, js ''<html>'')) = (None, Null)"
    using p by (simp add: checkTaskExists_Returns)
  have "syncTask example_library True (js ''actions/a'') (js ''tok'')
        (example_obs\<lparr>lookup_answer := Returns (502, js ''<html>'')\<rparr>) =
      ([Processing (js ''actions/a''), CheckingExistence, Sent (GET (Some (js ''a'')) (js ''tok'')),
        Creating (Some (js ''a'')),
        Sent (POST (Full (example_payload (js ''a''))) (js ''tok'')),
        Created Undefined, Separator],
       Returned)"
    using example_full c
    by (simp add: syncTask_lookup [where fp = "example_payload (js ''a'')"] example_clean
        example_obs_def create_task_def makeRequest_def)
       (simp add: example_library_def found_body_def zero_body_def js_def example_payload_def)
  then show ?thesis using p c by simp
qed

text \<open>
  C9. The result of the lookup does not depend on the status code; a truthy id at
  \<open>results[0].id\<close>, or else at the top level, is returned and the folder is updated under
  that id; if both are falsy the result is \<open>null\<close> and the task is created.
\<close>

theorem lookup_ignores_status:
  "checkTaskExists lib (Returns (code, body)) = checkTaskExists lib (Returns (code', body))
   \<and> (JSON_parse lib body = Returns d \<and> truthy (field (first (field d (js ''results''))) (js ''id'')) \<longrightarrow>
        snd (checkTaskExists lib (Returns (code, body))) = field (first (field d (js ''results''))) (js ''id''))
   \<and> (JSON_parse lib body = Returns d \<and> \<not> truthy (field (first (field d (js ''results''))) (js ''id''))
        \<and> truthy (field d (js ''id'')) \<longrightarrow>
        snd (checkTaskExists lib (Returns (code, body))) = field d (js ''id''))
   \<and> (JSON_parse lib body = Returns d \<and> \<not> truthy (field (first (field d (js ''results''))) (js ''id''))
        \<and> \<not> truthy (field d (js ''id'')) \<longrightarrow>
        snd (checkTaskExists lib (Returns (code, body))) = Null)
   \<and> (config_found obs \<and> main_found obs
        \<and> generatePayload lib (strip_trailing_slash folder) (build_obs obs) = Full fp \<and> url_ok
        \<and> lookup_answer obs = Returns (code, body) \<longrightarrow>
        requests (fst (syncTask lib url_ok folder tok obs)) =
          [GET (Some (name fp)) tok,
           if truthy (snd (checkTaskExists lib (Returns (code, body))))
           then PATCH (snd (checkTaskExists lib (Returns (code, body))))
                  (snd (patchPayload lib (Full fp)
                     (snd (getChangedFilesInFolder (strip_trailing_slash folder) (history_obs obs)))
                     (script_obs obs))) tok
           else POST (Full fp) tok])"
  by (simp add: checkTaskExists_Returns syncTask_lookup requests_append requests_create_task
      requests_update_task split: option.splits)

lemma zero_lookup:
  "checkTaskExists example_library (Returns (code, zero_body)) = (None, Null)"
  by (simp add: checkTaskExists_Returns example_library_def found_body_def zero_body_def js_def)

text \<open>An answer with status 500 and an id, and an answer with the id 0.\<close>

theorem lookup_ignores_status_witness:
  "requests (fst (syncTask example_library True (js ''actions/a'') (js ''tok'')
      (example_obs\<lparr>lookup_answer := Returns (500, found_body)\<rparr>))) =
     [GET (Some (js ''a'')) (js ''tok''),
      PATCH (Num (Finite 7)) (FileOnly (js ''print(1)'')) (js ''tok'')]
   \<and> requests (fst (syncTask example_library True (js ''actions/a'') (js ''tok'')
      (example_obs\<lparr>lookup_answer := Returns (200, zero_body)\<rparr>))) =
     [GET (Some (js ''a'')) (js ''tok''), POST (Full (example_payload (js ''a''))) (js ''tok'')]"
  using lookup_ignores_status [of example_library 500 found_body 200
      "Obj [(js ''results'', Arr [Obj [(js ''id'', Num (Finite 7))]])]"
      "example_obs\<lparr>lookup_answer := Returns (500, found_body)\<rparr>" "js ''actions/a''"
      "example_payload (js ''a'')" True "js ''tok''"]
    lookup_ignores_status [of example_library 200 zero_body 200
      "Obj [(js ''id'', Num (Finite 0))]"
      "example_obs\<lparr>lookup_answer := Returns (200, zero_body)\<rparr>" "js ''actions/a''"
      "example_payload (js ''a'')" True "js ''tok''"]
    example_full example_found [of 500] example_found [of 200] zero_lookup [of 200] example_changed
    example_file_only
  by (simp add: example_clean example_obs_def patchPayload_def onlyPyFilesChanged_def)
     (simp add: example_payload_def js_def)

lemma example_token: "sanitizeToken (Some (js ''Bearer tok'')) = js ''tok''"
  by (simp add: sanitizeToken_def strip_bearer_def remove_spaces_def is_space_def js_def)

lemma example_folders:
  "getChangedFolders (commit_history (example_env obs)) =
     (None, [js ''actions/b'', js ''actions/a'', js ''actions/c''])"
  by (simp add: example_env_def getChangedFolders_def add_folder_def set_add_def startsWith_def
      js_def)

lemma example_world:
  "folder_world (example_env obs) (js ''actions/a'') = obs"
  "folder_world (example_env obs) (js ''actions/b'') = example_obs"
  "folder_world (example_env obs) (js ''actions/c'') = example_obs"
  "SA_URL_ok (example_env obs)"
  "SA_TOKEN (example_env obs) = Some (js ''Bearer tok'')"
  by (simp_all add: example_env_def js_def)

lemma example_full_any:
  "generatePayload example_library cf example_files = Full (example_payload (basename cf))"
  using example_encoded
  by (simp add: generatePayload_def validateConfig_def requiredKeys_def example_defs js_def)

lemma example_returns:
  "snd (syncTask example_library True folder tok example_obs) = Returned"
  by (simp add: syncTask_def Let_def example_obs_def example_full_any split: prod.splits)

lemma example_run:
  "main example_library (example_env obs) =
     (case syncTask example_library True (js ''actions/a'') (js ''tok'') obs of
        (es, Returned) \<Rightarrow>
          (fst (syncTask example_library True (js ''actions/b'') (js ''tok'') example_obs) @ es
           @ fst (syncTask example_library True (js ''actions/c'') (js ''tok'') example_obs), 0)
      | (es, Exited code) \<Rightarrow>
          (fst (syncTask example_library True (js ''actions/b'') (js ''tok'') example_obs) @ es, code)
      | (es, Thrown m) \<Rightarrow>
          (fst (syncTask example_library True (js ''actions/b'') (js ''tok'') example_obs) @ es
           @ [Fatal m], 1))"
proof -
  have t: "js ''Bearer tok'' \<noteq> []" by (simp add: js_def)
  obtain eb where b: "syncTask example_library True (js ''actions/b'') (js ''tok'') example_obs = (eb, Returned)"
    using example_returns [of "js ''actions/b''" "js ''tok''"] by (metis prod.collapse)
  obtain ec where c: "syncTask example_library True (js ''actions/c'') (js ''tok'') example_obs = (ec, Returned)"
    using example_returns [of "js ''actions/c''" "js ''tok''"] by (metis prod.collapse)
  show ?thesis
    using t b c
    by (simp add: main_def example_folders example_world example_token
        split: prod.splits outcome.splits)
qed

text \<open>
  Three changed folders; the second has a \<open>config.yaml\<close> with the description only. The
  error lists the four other keys, and the third folder is not processed.
\<close>

theorem missing_keys_stop_run_witness:
  "generatePayload example_library (js ''actions/a'') (build_obs missing_keys_obs) =
     Failure missing_keys_message
   \<and> main example_library (example_env missing_keys_obs) =
       (fst (syncTask example_library True (js ''actions/b'') (js ''tok'') example_obs)
        @ [Processing (js ''actions/a''), PayloadError (js ''actions/a'') missing_keys_message], 1)"
  using missing_keys_stop_run [of missing_keys_obs "js ''description: demo''" example_library
      "[(js ''description'', Str (js ''demo''))]" "example_env missing_keys_obs" "js ''actions/a''"
      "js ''Bearer tok''" None "[js ''actions/b'']" "[js ''actions/c'']"]
    example_folders [of missing_keys_obs] example_returns [of "js ''actions/b''" "js ''tok''"]
  apply (simp add: example_world example_token example_clean Let_def)
  apply (simp add: missing_keys_obs_def example_obs_def example_library_def example_config_text_def
      requiredKeys_def missing_keys_message_def js_def)
  done

text \<open>
  C2 (as stated) fails for a folder without \<open>main.py\<close>: the folder is skipped before its
  configuration is validated, and the run goes on and ends with the exit code 0.
\<close>

theorem missing_script_skips_validation_counterexample:
  "generatePayload example_library (js ''actions/a'') (build_obs no_script_obs) =
     Failure missing_keys_message
   \<and> syncTask example_library True (js ''actions/a'') (js ''tok'') no_script_obs =
       ([SkipNoMain (js ''actions/a'')], Returned)
   \<and> main example_library (example_env no_script_obs) =
       (fst (syncTask example_library True (js ''actions/b'') (js ''tok'') example_obs)
        @ [SkipNoMain (js ''actions/a'')]
        @ fst (syncTask example_library True (js ''actions/c'') (js ''tok'') example_obs), 0)"
proof -
  have g: "generatePayload example_library (js ''actions/a'') (build_obs no_script_obs) =
     Failure missing_keys_message"
    by (simp add: generatePayload_def validateConfig_def no_script_obs_def example_obs_def
        example_library_def example_config_text_def requiredKeys_def missing_keys_message_def js_def)
  have s: "syncTask example_library True (js ''actions/a'') (js ''tok'') no_script_obs =
       ([SkipNoMain (js ''actions/a'')], Returned)"
    by (simp add: syncTask_def example_clean no_script_obs_def example_obs_def)
  show ?thesis using g s by (simp add: example_run)
qed

text \<open>
  C3. A \<open>config.yaml\<close> that does not parse gives the error \<open>Invalid YAML: ...\<close>, which
  \<open>syncTask\<close> logs; the run goes on with the next folder and ends with the exit code 0.
\<close>

theorem invalid_yaml_does_not_stop_run:
  "generatePayload example_library (js ''actions/a'') (build_obs bad_yaml_obs) =
     Failure (js ''Invalid YAML: unexpected end of the stream within a flow collection'')
   \<and> syncTask example_library True (js ''actions/a'') (js ''tok'') bad_yaml_obs =
       ([Processing (js ''actions/a''),
         PayloadError (js ''actions/a'')
           (js ''Invalid YAML: unexpected end of the stream within a flow collection'')],
        Returned)
   \<and> main example_library (example_env bad_yaml_obs) =
       (fst (syncTask example_library True (js ''actions/b'') (js ''tok'') example_obs)
        @ [Processing (js ''actions/a''),
           PayloadError (js ''actions/a'')
             (js ''Invalid YAML: unexpected end of the stream within a flow collection'')]
        @ fst (syncTask example_library True (js ''actions/c'') (js ''tok'') example_obs), 0)"
proof -
  have g: "generatePayload example_library (js ''actions/a'') (build_obs bad_yaml_obs) =
     Failure (js ''Invalid YAML: unexpected end of the stream within a flow collection'')"
    by (simp add: generatePayload_def bad_yaml_obs_def example_obs_def
        example_library_def example_config_text_def js_def)
  have i: "\<not> str_includes (js ''Invalid YAML: unexpected end of the stream within a flow collection'')
             (js ''Invalid config.yaml'')"
    by (simp add: js_def startsWith_def)
  have n: "js ''Invalid YAML: unexpected end of the stream within a flow collection'' \<noteq> []"
    by (simp add: js_def)
  have s: "syncTask example_library True (js ''actions/a'') (js ''tok'') bad_yaml_obs =
       ([Processing (js ''actions/a''),
         PayloadError (js ''actions/a'')
           (js ''Invalid YAML: unexpected end of the stream within a flow collection'')],
        Returned)"
    using g i n by (simp add: syncTask_def example_clean bad_yaml_obs_def example_obs_def Let_def)
  show ?thesis using g s by (simp add: example_run)
qed

text \<open>
  An empty \<open>config.yaml\<close>, for which the parser returns \<open>undefined\<close>: \<open>key in config\<close>
  throws, the error of the payload is the message of that TypeError, and the run goes on.
\<close>

theorem empty_config_does_not_stop_run:
  "generatePayload example_library (js ''actions/a'') (build_obs empty_config_obs) =
     Failure (in_TypeError example_library (js ''description'') Undefined)
   \<and> snd (syncTask example_library True (js ''actions/a'') (js ''tok'') empty_config_obs) = Returned
   \<and> snd (main example_library (example_env empty_config_obs)) = 0"
proof -
  have g: "generatePayload example_library (js ''actions/a'') (build_obs empty_config_obs) =
     Failure (in_TypeError example_library (js ''description'') Undefined)"
    by (simp add: generatePayload_def validateConfig_def requiredKeys_def empty_config_obs_def
        example_obs_def example_library_def example_config_text_def js_def)
  have i: "\<not> str_includes (in_TypeError example_library (js ''description'') Undefined)
             (js ''Invalid config.yaml'')"
    by (simp add: example_library_def js_def startsWith_def)
  have s: "snd (syncTask example_library True (js ''actions/a'') (js ''tok'') empty_config_obs) = Returned"
    using g i by (simp add: syncTask_def example_clean Let_def split: prod.splits)
  obtain es where "syncTask example_library True (js ''actions/a'') (js ''tok'') empty_config_obs = (es, Returned)"
    using s by (metis prod.collapse)
  then show ?thesis using g s by (simp add: example_run)
qed

section \<open>Properties of the percent-encoding\<close>

lemma unat_of_nat_16: "n < 0x10000 \<Longrightarrow> unat (of_nat n :: 16 word) = n"
  by (simp add: unat_of_nat)

lemma hex_value_digit:
  assumes "n < 16"
  shows "hex_value (hex_digit n) = Some n"
proof (cases "n < 10")
  case True
  have u: "unat (of_nat (0x30 + n) :: 16 word) = 0x30 + n"
    using assms by (intro unat_of_nat_16) simp
  show ?thesis
    unfolding hex_value_def hex_digit_def word_le_nat_alt using True u by simp
next
  case False
  have u: "unat (of_nat (0x37 + n) :: 16 word) = 0x37 + n"
    using assms by (intro unat_of_nat_16) simp
  show ?thesis
    unfolding hex_value_def hex_digit_def word_le_nat_alt using False assms u by simp
qed

lemma parse_escape: "b < 256 \<Longrightarrow> parse_hex_octet (hex_digit (b div 16) # hex_digit (b mod 16) # r) = Some b"
proof -
  assume "b < 256"
  then have "b div 16 < 16" "b mod 16 < 16" by simp_all
  then show ?thesis by (simp add: parse_hex_octet_def hex_value_digit)
qed

lemma is_lead_unat: "is_lead c \<longleftrightarrow> 0xD800 \<le> unat c \<and> unat c \<le> 0xDBFF"
  by (simp add: is_lead_def word_le_nat_alt)

lemma is_trail_unat: "is_trail c \<longleftrightarrow> 0xDC00 \<le> unat c \<and> unat c \<le> 0xDFFF"
  by (simp add: is_trail_def word_le_nat_alt)

lemma unat_16_bound: "unat (c::16 word) < 0x10000"
  using unsigned_less [of c] by simp

lemma decode_one:
  assumes "cp < 0x80"
  shows "decodeURIComponent (concat (map escape (utf8 cp)) @ t) =
           map_option (\<lambda>r. of_nat cp # r) (decodeURIComponent t)"
  using assms by (simp add: utf8_def escape_def parse_escape leading_ones_def)

lemma decode_two:
  assumes "0x80 \<le> cp" "cp < 0x800"
  shows "decodeURIComponent (concat (map escape (utf8 cp)) @ t) =
           map_option (\<lambda>r. utf16 cp @ r) (decodeURIComponent t)"
proof -
  define a where "a = 0xC0 + cp div 0x40"
  define b where "b = 0x80 + cp mod 0x40"
  have a: "0xC2 \<le> a" "a < 0xE0" using assms by (simp_all add: a_def) 
  have b: "0x80 \<le> b" "b < 0xC0" by (simp_all add: b_def)
  have u: "utf8 cp = [a, b]" using assms by (simp add: utf8_def a_def b_def)
  have cp: "(a - 0xC0) * 0x40 + (b - 0x80) = cp" by (simp add: a_def b_def)
  have la: "leading_ones a = 2" using a by (simp add: leading_ones_def)
  have e: "escapes (Suc 0) (escape b @ t) = Some [b]"
    using b by (simp add: escape_def parse_escape)
  have "utf8_code_point [a, b] = Some cp"
    using b assms cp by (simp add: utf8_code_point_def continuation_def)
  then show ?thesis
    using a la e by (simp add: u escape_def parse_escape)
qed

lemma split3:
  "(cp::nat) div 0x1000 * 0x1000 + cp div 0x40 mod 0x40 * 0x40 + cp mod 0x40 = cp"
proof -
  have "cp div 0x1000 = cp div 0x40 div 0x40"
    by (simp add: div_mult2_eq [symmetric])
  moreover have "cp div 0x40 div 0x40 * 0x40 + cp div 0x40 mod 0x40 = cp div 0x40"
    by (rule div_mult_mod_eq)
  moreover have "cp div 0x40 * 0x40 + cp mod 0x40 = cp"
    by (rule div_mult_mod_eq)
  ultimately show ?thesis by linarith
qed

lemma split4:
  "(cp::nat) div 0x40000 * 0x40000 + cp div 0x1000 mod 0x40 * 0x1000 + cp div 0x40 mod 0x40 * 0x40
     + cp mod 0x40 = cp"
proof -
  have "cp div 0x40000 = cp div 0x1000 div 0x40"
    by (simp add: div_mult2_eq [symmetric])
  moreover have "cp div 0x1000 div 0x40 * 0x40 + cp div 0x1000 mod 0x40 = cp div 0x1000"
    by (rule div_mult_mod_eq)
  ultimately have "cp div 0x40000 * 0x40000 + cp div 0x1000 mod 0x40 * 0x1000 = cp div 0x1000 * 0x1000"
    by linarith
  then show ?thesis using split3 [of cp] by linarith
qed

lemma decode_three:
  assumes "0x800 \<le> cp" "cp < 0x10000" "\<not> (0xD800 \<le> cp \<and> cp \<le> 0xDFFF)"
  shows "decodeURIComponent (concat (map escape (utf8 cp)) @ t) =
           map_option (\<lambda>r. utf16 cp @ r) (decodeURIComponent t)"
proof -
  define a where "a = 0xE0 + cp div 0x1000"
  define b where "b = 0x80 + cp div 0x40 mod 0x40"
  define c where "c = 0x80 + cp mod 0x40"
  have a: "0xE0 \<le> a" "a < 0xF0" using assms by (simp_all add: a_def)
  have b: "0x80 \<le> b" "b < 0xC0" by (simp_all add: b_def)
  have c: "0x80 \<le> c" "c < 0xC0" by (simp_all add: c_def)
  have u: "utf8 cp = [a, b, c]" using assms by (simp add: utf8_def a_def b_def c_def)
  have cp: "(a - 0xE0) * 0x1000 + (b - 0x80) * 0x40 + (c - 0x80) = cp"
    using split3 [of cp] by (simp add: a_def b_def c_def)
  have la: "leading_ones a = 3" using a by (simp add: leading_ones_def)
  have e: "escapes (Suc (Suc 0)) (escape b @ escape c @ t) = Some [b, c]"
    using b c by (simp add: escape_def parse_escape)
  have "utf8_code_point [a, b, c] = Some cp"
    using b c assms cp by (simp add: utf8_code_point_def continuation_def)
  then show ?thesis
    using a la e by (simp add: u escape_def parse_escape numeral_2_eq_2)
qed

lemma decode_four:
  assumes "0x10000 \<le> cp" "cp < 0x110000"
  shows "decodeURIComponent (concat (map escape (utf8 cp)) @ t) =
           map_option (\<lambda>r. utf16 cp @ r) (decodeURIComponent t)"
proof -
  define a where "a = 0xF0 + cp div 0x40000"
  define b where "b = 0x80 + cp div 0x1000 mod 0x40"
  define c where "c = 0x80 + cp div 0x40 mod 0x40"
  define d where "d = 0x80 + cp mod 0x40"
  have a: "0xF0 \<le> a" "a < 0xF8" using assms by (simp_all add: a_def)
  have b: "0x80 \<le> b" "b < 0xC0" by (simp_all add: b_def)
  have c: "0x80 \<le> c" "c < 0xC0" by (simp_all add: c_def)
  have d: "0x80 \<le> d" "d < 0xC0" by (simp_all add: d_def)
  have u: "utf8 cp = [a, b, c, d]" using assms by (simp add: utf8_def a_def b_def c_def d_def)
  have cp: "(a - 0xF0) * 0x40000 + (b - 0x80) * 0x1000 + (c - 0x80) * 0x40 + (d - 0x80) = cp"
    using split4 [of cp] by (simp add: a_def b_def c_def d_def)
  have la: "leading_ones a = 4" using a by (simp add: leading_ones_def)
  have e: "escapes (Suc (Suc (Suc 0))) (escape b @ escape c @ escape d @ t) = Some [b, c, d]"
    using b c d by (simp add: escape_def parse_escape)
  have "utf8_code_point [a, b, c, d] = Some cp"
    using b c d assms cp by (simp add: utf8_code_point_def continuation_def)
  then show ?thesis
    using a la e by (simp add: u escape_def parse_escape numeral_3_eq_3)
qed

lemma decode_code_point:
  assumes "scalar cp"
  shows "decodeURIComponent (concat (map escape (utf8 cp)) @ t) =
           map_option (\<lambda>r. utf16 cp @ r) (decodeURIComponent t)"
proof -
  consider "cp < 0x80" | "0x80 \<le> cp" "cp < 0x800" | "0x800 \<le> cp" "cp < 0x10000"
    | "0x10000 \<le> cp" by linarith
  then show ?thesis
  proof cases
    case 1
    then show ?thesis using decode_one [of cp t] by (simp add: utf16_def)
  next
    case 2
    then show ?thesis by (rule decode_two)
  next
    case 3
    then show ?thesis using assms by (intro decode_three) (simp_all add: scalar_def)
  next
    case 4
    then show ?thesis using assms by (intro decode_four) (simp_all add: scalar_def)
  qed
qed

lemma utf16_unit:
  assumes "\<not> is_lead c" "\<not> is_trail c"
  shows "scalar (unat c) \<and> utf16 (unat c) = [c]"
proof -
  have b: "unat c < 0x10000" by (rule unat_16_bound)
  then have "utf16 (unat c) = [c]" by (simp add: utf16_def)
  moreover have "scalar (unat c)"
    using assms b unfolding scalar_def is_lead_unat is_trail_unat by linarith
  ultimately show ?thesis by simp
qed

lemma utf16_pair:
  assumes "is_lead c" "is_trail d"
  shows "scalar (pair_code_point c d) \<and> utf16 (pair_code_point c d) = [c, d]"
proof -
  define h where "h = unat c - 0xD800"
  define l where "l = unat d - 0xDC00"
  have h: "h < 0x400" "unat c = 0xD800 + h" using assms(1) by (auto simp: h_def is_lead_unat)
  have l: "l < 0x400" "unat d = 0xDC00 + l" using assms(2) by (auto simp: l_def is_trail_unat)
  have p: "pair_code_point c d = 0x10000 + h * 0x400 + l"
    by (simp add: pair_code_point_def h_def l_def)
  have s: "scalar (pair_code_point c d)" using h l by (simp add: p scalar_def)
  have "(h * 0x400 + l) div 0x400 = h" "(h * 0x400 + l) mod 0x400 = l" using l by simp_all
  then have "utf16 (pair_code_point c d) = [of_nat (unat c), of_nat (unat d)]"
    using h l by (simp add: p utf16_def)
  then show ?thesis using s by simp
qed

lemma unreserved_plain: "unreserved c \<Longrightarrow> c \<noteq> 0x25 \<and> \<not> is_lead c \<and> \<not> is_trail c"
  by (auto simp: unreserved_def is_lead_def is_trail_def word_le_nat_alt)

lemma encode_decode:
  "encodeURIComponent s = Some e \<Longrightarrow> decodeURIComponent e = Some s"
proof (induction s arbitrary: e rule: encodeURIComponent.induct)
  case 1
  then show ?case by simp
next
  case (2 c s)
  show ?case
  proof (cases "unreserved c")
    case True
    with "2.prems" obtain r where r: "encodeURIComponent s = Some r" "e = c # r" by auto
    from "2.IH"(1) [OF True r(1)] True r(2) show ?thesis
      using unreserved_plain [of c] by simp
  next
    case False
    note nu = False
    show ?thesis
    proof (cases "is_trail c")
      case True
      with nu "2.prems" show ?thesis by simp
    next
      case False
      note nt = False
      show ?thesis
      proof (cases "is_lead c")
        case True
        with nu nt "2.prems" obtain d s' r where
          d: "s = d # s'" "is_trail d" "encodeURIComponent s' = Some r"
             "e = concat (map escape (utf8 (pair_code_point c d))) @ r"
          by (auto split: list.splits if_splits)
        have "decodeURIComponent r = Some s'"
          using "2.IH"(2) [OF nu nt True d(1) d(2) d(3)] .
        then show ?thesis
          using utf16_pair [OF True d(2)] d(1,4) decode_code_point [of "pair_code_point c d" r]
          by simp
      next
        case False
        with nu nt "2.prems" obtain r where
          r: "encodeURIComponent s = Some r" "e = concat (map escape (utf8 (unat c))) @ r"
          by auto
        have "decodeURIComponent r = Some s"
          using "2.IH"(3) [OF nu nt False r(1)] .
        then show ?thesis
          using utf16_unit [OF False nt] r(2) decode_code_point [of "unat c" r] by simp
      qed
    qed
  qed
qed

lemma well_formed_encodes: "well_formed s \<Longrightarrow> encodeURIComponent s \<noteq> None"
proof (induction s rule: well_formed.induct)
  case 1
  then show ?case by simp
next
  case (2 c s)
  show ?case
  proof (cases "unreserved c")
    case True
    then have "well_formed s" using "2.prems" unreserved_plain [of c] by simp
    then show ?thesis using "2.IH"(2) True unreserved_plain [of c] by simp
  next
    case False
    note nu = False
    have nt: "\<not> is_trail c" using "2.prems" by (simp split: if_splits)
    show ?thesis
    proof (cases "is_lead c")
      case True
      with nt "2.prems" obtain d s' where d: "s = d # s'" "is_trail d" "well_formed s'"
        by (cases s) simp_all
      then show ?thesis using "2.IH"(1) [OF nt True d(1)] nu nt True by simp
    next
      case False
      then have "well_formed s" using "2.prems" nt by simp
      then show ?thesis using "2.IH"(2) [OF nt False] nu nt False by simp
    qed
  qed
qed

lemma utf16_well_formed:
  assumes "scalar cp" and "well_formed s"
  shows "well_formed (utf16 cp @ s)"
proof (cases "cp < 0x10000")
  case True
  then have "\<not> is_lead (of_nat cp :: 16 word)" "\<not> is_trail (of_nat cp :: 16 word)"
    using assms(1) by (auto simp: is_lead_unat is_trail_unat unat_of_nat_16 scalar_def)
  then show ?thesis using True assms(2) by (simp add: utf16_def)
next
  case False
  define v where "v = cp - 0x10000"
  have v: "v < 0x100000" using assms(1) False by (simp add: v_def scalar_def)
  then have h: "v div 0x400 < 0x400" by simp
  have l: "v mod 0x400 < 0x400" by simp
  have uh: "unat (of_nat (0xD800 + v div 0x400) :: 16 word) = 0xD800 + v div 0x400"
    using h by (intro unat_of_nat_16) simp
  have ul: "unat (of_nat (0xDC00 + v mod 0x400) :: 16 word) = 0xDC00 + v mod 0x400"
    using l by (intro unat_of_nat_16) simp
  have "is_lead (of_nat (0xD800 + v div 0x400) :: 16 word)"
    unfolding is_lead_unat uh using h by simp
  moreover have "\<not> is_trail (of_nat (0xD800 + v div 0x400) :: 16 word)"
    unfolding is_trail_unat uh using h by simp
  moreover have "is_trail (of_nat (0xDC00 + v mod 0x400) :: 16 word)"
    unfolding is_trail_unat ul using l by simp
  ultimately show ?thesis using False assms(2) by (simp add: utf16_def v_def del: of_nat_add)
qed

lemma scalar_values_well_formed:
  "\<forall>cp \<in> set cps. scalar cp \<Longrightarrow> well_formed (concat (map utf16 cps))"
  by (induction cps) (simp_all add: utf16_well_formed)

lemma sample_encodes: "encodeURIComponent sample_text = Some sample_encoded"
  by (simp add: sample_text_def sample_encoded_def js_def unreserved_def is_lead_def is_trail_def
      pair_code_point_def utf8_def escape_def hex_digit_def)

lemma sample_well_formed: "well_formed sample_text"
  by (simp add: sample_text_def is_lead_def is_trail_def)

lemma generateFileOnlyPayload_file:
  "generateFileOnlyPayload lib obs = FileOnly encodedFile \<Longrightarrow> content obs = Returns script \<Longrightarrow>
   encodeURIComponent script = Some encodedFile"
  by (simp add: generateFileOnlyPayload_def split: if_splits option.splits)

lemma generatePayload_file:
  "generatePayload lib folder obs = Full fp \<Longrightarrow> content (main_py obs) = Returns script \<Longrightarrow>
   encodeURIComponent script = Some (file' fp)"
  by (auto simp: generatePayload_def Let_def split: if_splits result.splits option.splits)

text \<open>
  C8. The text of a script, as the decoding of a file as UTF-8 gives it (a sequence of
  scalar values, which has no unpaired surrogate), is encoded by \<open>encodeURIComponent\<close>,
  and decoding the result gives the text back; so the \<open>file\<close> of both payloads decodes to
  the text of the script.
\<close>

theorem percent_encoding_round_trip:
  "(well_formed script \<longrightarrow>
      (\<exists>encodedFile. encodeURIComponent script = Some encodedFile
         \<and> decodeURIComponent encodedFile = Some script))
   \<and> ((\<forall>cp \<in> set cps. scalar cp) \<longrightarrow> well_formed (concat (map utf16 cps)))
   \<and> (generateFileOnlyPayload lib obs = FileOnly encodedFile \<and> content obs = Returns script \<longrightarrow>
        decodeURIComponent encodedFile = Some script)
   \<and> (generatePayload lib folder fobs = Full fp \<and> content (main_py fobs) = Returns script \<longrightarrow>
        decodeURIComponent (file' fp) = Some script)"
  using well_formed_encodes [of script] encode_decode [of script]
    scalar_values_well_formed [of cps]
    generateFileOnlyPayload_file [of lib obs encodedFile script]
    generatePayload_file [of lib folder fobs fp script]
  by auto

text \<open>The sample text, which has non-ASCII characters, a line feed and both quotes.\<close>

theorem percent_encoding_round_trip_witness:
  "encodeURIComponent sample_text = Some sample_encoded
   \<and> decodeURIComponent sample_encoded = Some sample_text
   \<and> generateFileOnlyPayload example_library \<lparr>present = True, content = Returns sample_text\<rparr>
       = FileOnly sample_encoded"
  using percent_encoding_round_trip [of sample_text "[]" example_library
      "\<lparr>present = True, content = Returns sample_text\<rparr>" sample_encoded]
    sample_encodes sample_well_formed
  by (simp add: generateFileOnlyPayload_def)

end
